theory Spec2Isabelle
  imports Main "HOL-Library.Sublist"
begin

chapter \<open>The model\<close>

section \<open>JavaScript strings\<close>

text \<open>
  A string is the list of its code units; the model keeps the units below 256.
  \<open>undefined\<close> is \<open>None\<close> of an option type throughout.
\<close>

text \<open>\<open>s.split(c)\<close> for a one-character separator: never the empty list.\<close>

fun split_on :: "char \<Rightarrow> string \<Rightarrow> string list" where
  "split_on c [] = [[]]"
| "split_on c (x # xs) =
     (if x = c then [] # split_on c xs
      else (case split_on c xs of [] \<Rightarrow> [[x]] | p # ps \<Rightarrow> (x # p) # ps))"

text \<open>Array destructuring \<open>[a, b] = parts\<close>: a missing position is \<open>undefined\<close>.\<close>

fun element :: "'a list \<Rightarrow> nat \<Rightarrow> 'a option" where
  "element [] n = None"
| "element (x # xs) 0 = Some x"
| "element (x # xs) (Suc n) = element xs n"

text \<open>\<open>s.replace(pat, rep)\<close> with a string pattern: the first occurrence only.\<close>

fun replace_first :: "string \<Rightarrow> string \<Rightarrow> string \<Rightarrow> string" where
  "replace_first pat rep [] = (if pat = [] then rep else [])"
| "replace_first pat rep (x # xs) =
     (if prefix pat (x # xs) then rep @ drop (length pat) (x # xs)
      else x # replace_first pat rep xs)"

text \<open>
  \<open>parseInt(x)\<close> with no radix: leading white space is skipped, one sign is read, a
  \<open>0x\<close> prefix selects radix 16, and the longest run of digits is the value; no digit
  gives \<open>NaN\<close> (\<open>None\<close>). \<open>parseInt(undefined)\<close> reads the text "undefined" and is
  \<open>NaN\<close>. The value is the exact integer: the rounding of a double past \<open>2^53\<close> is
  not modelled.
\<close>

definition is_space :: "char \<Rightarrow> bool" where
  "is_space c = ((of_char c :: nat) \<in> {9, 10, 11, 12, 13, 32, 160})"

definition digit_value :: "char \<Rightarrow> nat option" where
  "digit_value c =
     (let n = (of_char c :: nat) in
      if 48 \<le> n \<and> n \<le> 57 then Some (n - 48)
      else if 97 \<le> n \<and> n \<le> 102 then Some (n - 87)
      else if 65 \<le> n \<and> n \<le> 70 then Some (n - 55)
      else None)"

definition is_digit :: "nat \<Rightarrow> char \<Rightarrow> bool" where
  "is_digit radix c = (case digit_value c of None \<Rightarrow> False | Some d \<Rightarrow> d < radix)"

definition digits_value :: "nat \<Rightarrow> string \<Rightarrow> nat" where
  "digits_value radix ds =
     foldl (\<lambda>acc c. acc * radix + (case digit_value c of None \<Rightarrow> 0 | Some d \<Rightarrow> d)) 0 ds"

definition parseInt :: "string option \<Rightarrow> int option" where
  "parseInt x =
     (case x of
        None \<Rightarrow> None
      | Some s \<Rightarrow>
          (let t = dropWhile is_space s;
               negative = (case t of [] \<Rightarrow> False | c # _ \<Rightarrow> c = CHR ''-'');
               u = (case t of [] \<Rightarrow> []
                    | c # r \<Rightarrow> if c = CHR ''-'' \<or> c = CHR ''+'' then r else t);
               hex = (prefix ''0x'' u \<or> prefix ''0X'' u);
               radix = (if hex then 16 else 10);
               v = (if hex then drop 2 u else u);
               ds = takeWhile (is_digit radix) v
           in if ds = [] then None
              else Some ((if negative then - 1 else 1) * int (digits_value radix ds))))"

section \<open>The DSN parser\<close>

text \<open>
  \<open>parseDSN\<close> of \<open>src/utils/db.ts\<close> (the same body stands in \<open>server/db.js\<close> and in
  the SQL adapter). The only exception it can raise is the \<open>TypeError\<close> of
  \<open>rest.split\<close> when the DSN has no \<open>@\<close>.
\<close>

datatype error =
    TypeError
  | SyntaxError
  | DriverError
  | PoolUnavailable
  | NotInitialized
  | NestedTransaction
  | JsonWebTokenError
  | TokenExpiredError

record pool_options =
  host :: string
  port :: "int option"
  user :: string
  password :: "string option"
  database :: "string option"
  waitForConnections :: bool
  connectionLimit :: nat
  maxIdle :: nat
  queueLimit :: nat

definition parseDSN :: "string \<Rightarrow> error + pool_options" where
  "parseDSN dsn =
     (let parts = split_on CHR ''@'' dsn in
      case (element parts 0, element parts 1) of
        (Some auth, Some rest) \<Rightarrow>
          (let cred = split_on CHR '':'' auth;
               loc = split_on CHR ''/'' rest
           in case (element cred 0, element loc 0) of
                (Some username, Some hostport) \<Rightarrow>
                  (let hp = split_on CHR '':'' hostport
                   in case element hp 0 of
                        Some hostname \<Rightarrow>
                          Inr \<lparr> host = replace_first '')'' '''' (replace_first ''tcp('' '''' hostname),
                                port = parseInt (element hp 1),
                                user = username,
                                password = element cred 1,
                                database = element loc 1,
                                waitForConnections = True,
                                connectionLimit = 10,
                                maxIdle = 10,
                                queueLimit = 0 \<rparr>
                      | None \<Rightarrow> Inl TypeError)
              | _ \<Rightarrow> Inl TypeError)
      | _ \<Rightarrow> Inl TypeError)"

section \<open>The split points of a DSN, in words\<close>

text \<open>
  The text before the first separator, the text after it, the text between the first
  separator and the next one, and the two sides of the last separator.
\<close>

definition before_first :: "char \<Rightarrow> string \<Rightarrow> string" where
  "before_first c s = takeWhile (\<lambda>x. x \<noteq> c) s"

definition after_first :: "char \<Rightarrow> string \<Rightarrow> string option" where
  "after_first c s = (if c \<in> set s then Some (tl (dropWhile (\<lambda>x. x \<noteq> c) s)) else None)"

definition second_segment :: "char \<Rightarrow> string \<Rightarrow> string option" where
  "second_segment c s = map_option (before_first c) (after_first c s)"

definition before_last :: "char \<Rightarrow> string \<Rightarrow> string" where
  "before_last c s = (if c \<in> set s then rev (tl (dropWhile (\<lambda>x. x \<noteq> c) (rev s))) else s)"

definition after_last :: "char \<Rightarrow> string \<Rightarrow> string option" where
  "after_last c s = (if c \<in> set s then Some (rev (takeWhile (\<lambda>x. x \<noteq> c) (rev s))) else None)"

text \<open>
  The parser as the specification words it: the first \<open>:\<close> separates user from
  password, the first \<open>/\<close> after the \<open>@\<close> separates host and port from the
  database name, the last \<open>:\<close> of the host segment separates host from port.
\<close>

definition parseDSN_as_specified :: "string \<Rightarrow> error + pool_options" where
  "parseDSN_as_specified dsn =
     (case after_first CHR ''@'' dsn of
        None \<Rightarrow> Inl TypeError
      | Some rest \<Rightarrow>
          (let auth = before_first CHR ''@'' dsn;
               hostport = before_first CHR ''/'' rest
           in Inr \<lparr> host = replace_first '')'' '''' (replace_first ''tcp('' ''''
                               (before_last CHR '':'' hostport)),
                     port = parseInt (after_last CHR '':'' hostport),
                     user = before_first CHR '':'' auth,
                     password = after_first CHR '':'' auth,
                     database = after_first CHR ''/'' rest,
                     waitForConnections = True,
                     connectionLimit = 10,
                     maxIdle = 10,
                     queueLimit = 0 \<rparr>))"

section \<open>JavaScript values\<close>

text \<open>
  The values that cross the storage boundary are JSON documents. An object is the list
  of its properties in insertion order; a property read takes the first entry of a
  name. Numbers are the integers: no claim below depends on a fraction.
\<close>

datatype json =
    JNull
  | JBool bool
  | JNum int
  | JStr string
  | JArr "json list"
  | JObj "(string \<times> json) list"

fun truthy :: "json \<Rightarrow> bool" where
  "truthy JNull = False"
| "truthy (JBool b) = b"
| "truthy (JNum n) = (n \<noteq> 0)"
| "truthy (JStr s) = (s \<noteq> [])"
| "truthy (JArr xs) = True"
| "truthy (JObj kvs) = True"

text \<open>\<open>!x\<close> for an optional string such as a DSN taken from the environment.\<close>

fun falsy_string :: "string option \<Rightarrow> bool" where
  "falsy_string None = True"
| "falsy_string (Some s) = (s = [])"

text \<open>
  \<open>v.name\<close> for a name that is no built-in property (\<open>loginPassword\<close> below):
  reading it from \<open>null\<close> raises the \<open>TypeError\<close>, a primitive or an array has
  no such property.
\<close>

fun get_prop :: "json \<Rightarrow> string \<Rightarrow> error + json option" where
  "get_prop JNull name = Inl TypeError"
| "get_prop (JObj kvs) name = Inr (map_of kvs name)"
| "get_prop v name = Inr None"

text \<open>\<open>obj.name = x\<close> on an object: an existing property keeps its position.\<close>

fun set_prop :: "json \<Rightarrow> string \<Rightarrow> json \<Rightarrow> json" where
  "set_prop (JObj kvs) name x =
     (if name \<in> fst ` set kvs
      then JObj (map (\<lambda>(k, v). if k = name then (k, x) else (k, v)) kvs)
      else JObj (kvs @ [(name, x)]))"
| "set_prop v name x = v"

text \<open>
  \<open>a === b\<close> where \<open>a\<close> comes from the request and \<open>b\<close> from the store:
  primitives compare by value, and two arrays or objects are never the same reference.
\<close>

fun strict_equal :: "json \<Rightarrow> json option \<Rightarrow> bool" where
  "strict_equal JNull (Some JNull) = True"
| "strict_equal (JBool a) (Some (JBool b)) = (a = b)"
| "strict_equal (JNum a) (Some (JNum b)) = (a = b)"
| "strict_equal (JStr a) (Some (JStr b)) = (a = b)"
| "strict_equal a b = False"

text \<open>The decimal name of an array index, as an object key.\<close>

definition digit_char :: "nat \<Rightarrow> char" where
  "digit_char d = ''0123456789'' ! (d mod 10)"

fun decimal :: "nat \<Rightarrow> string" where
  "decimal n = (if n < 10 then [digit_char n] else decimal (n div 10) @ [digit_char (n mod 10)])"

text \<open>
  \<open>const { name, ...others } = v\<close>: the own enumerable properties of \<open>v\<close> but
  \<open>name\<close>. \<open>null\<close> cannot be destructured; a string and an array give their
  indexed elements, a number or a boolean nothing.
\<close>

fun rest_without :: "string \<Rightarrow> json \<Rightarrow> error + json" where
  "rest_without name JNull = Inl TypeError"
| "rest_without name (JObj kvs) = Inr (JObj (filter (\<lambda>(k, v). k \<noteq> name) kvs))"
| "rest_without name (JArr xs) =
     Inr (JObj (filter (\<lambda>(k, v). k \<noteq> name) (zip (map decimal [0..<length xs]) xs)))"
| "rest_without name (JStr s) =
     Inr (JObj (filter (\<lambda>(k, v). k \<noteq> name)
                 (zip (map decimal [0..<length s]) (map (\<lambda>c. JStr [c]) s))))"
| "rest_without name v = Inr (JObj [])"

section \<open>The runtime and the MySQL server\<close>

text \<open>
  The library calls the code makes are parameters of the model: \<open>JSON.parse\<close>
  (\<open>None\<close> when it raises the \<open>SyntaxError\<close>) and
  \<open>Buffer.from(x).toString('base64')\<close> (\<open>None\<close> when \<open>Buffer.from\<close> refuses
  its argument).
\<close>

record runtime =
  JSON_parse :: "string \<Rightarrow> json option"
  to_base64 :: "json \<Rightarrow> string option"

text \<open>
  The MySQL server as the code sees it through the driver: whether
  \<open>pool.getConnection()\<close> resolves, whether a statement on a connection resolves, and
  the rows of the \<open>configs\<close> table (\<open>id INT PRIMARY KEY\<close>, \<open>config JSON\<close>). A cell
  of the JSON column holds a document; the driver hands it back as the document.
\<close>

record mysql_server =
  accepting :: bool
  answering :: bool
  configs :: "(int \<times> json) list"

text \<open>\<open>SELECT config FROM configs ORDER BY id DESC LIMIT 1\<close>.\<close>

fun latest_row :: "(int \<times> json) list \<Rightarrow> (int \<times> json) option" where
  "latest_row [] = None"
| "latest_row (r # rs) =
     (case latest_row rs of
        None \<Rightarrow> Some r
      | Some b \<Rightarrow> if fst b < fst r then Some r else Some b)"

definition select_latest_config :: "mysql_server \<Rightarrow> error + json list" where
  "select_latest_config connection =
     (if answering connection
      then Inr (case latest_row (configs connection) of None \<Rightarrow> [] | Some r \<Rightarrow> [snd r])
      else Inl DriverError)"

section \<open>The pool singleton behind \<open>withConnection\<close>\<close>

text \<open>
  The module variable \<open>pool\<close> is the boolean state passed in and out. The first
  component of the result is whether \<open>initializePool\<close> returned a pool.
\<close>

definition initializePool :: "mysql_server \<Rightarrow> string option \<Rightarrow> bool \<Rightarrow> bool \<times> bool" where
  "initializePool srv dsn pool =
     (case dsn of
        None \<Rightarrow> (False, pool)
      | Some d \<Rightarrow>
          if d = [] then (False, pool)
          else if pool then (True, True)
          else (case parseDSN d of
                  Inl e \<Rightarrow> (False, False)
                | Inr opts \<Rightarrow>
                    if accepting srv \<and> answering srv then (True, True) else (False, False)))"

definition withConnection ::
  "mysql_server \<Rightarrow> string option \<Rightarrow> bool \<Rightarrow> (mysql_server \<Rightarrow> error + 'a) \<Rightarrow> (error + 'a) \<times> bool" where
  "withConnection srv dsn pool callback =
     (case initializePool srv dsn pool of
        (False, pool') \<Rightarrow> (Inl PoolUnavailable, pool')
      | (True, pool') \<Rightarrow>
          if accepting srv then (callback srv, pool') else (Inl DriverError, pool'))"

section \<open>The configuration service whose functions take the DSN\<close>

definition defaultConfig :: json where
  "defaultConfig =
     JObj [(''resourceSites'', JArr []),
           (''parseApi'', JStr ''''),
           (''backgroundImage'', JStr ''''),
           (''enableLogin'', JBool False),
           (''loginPassword'', JStr ''''),
           (''announcement'', JStr ''''),
           (''customTitle'', JStr '''')]"

text \<open>\<open>encodeBase64\<close>: the loop body runs three times.\<close>

primrec base64_times :: "runtime \<Rightarrow> nat \<Rightarrow> json \<Rightarrow> error + json" where
  "base64_times rt 0 encoded = Inr encoded"
| "base64_times rt (Suc i) encoded =
     (case to_base64 rt encoded of
        None \<Rightarrow> Inl TypeError
      | Some e \<Rightarrow> base64_times rt i (JStr e))"

definition encodeBase64 :: "runtime \<Rightarrow> json \<Rightarrow> error + json" where
  "encodeBase64 rt str = base64_times rt 3 str"

text \<open>
  \<open>typeof rows[0].config === 'string' ? JSON.parse(rows[0].config) : rows[0].config\<close>
\<close>

definition decode_cell :: "runtime \<Rightarrow> json \<Rightarrow> error + json" where
  "decode_cell rt cell =
     (case cell of
        JStr s \<Rightarrow> (case JSON_parse rt s of None \<Rightarrow> Inl SyntaxError | Some v \<Rightarrow> Inr v)
      | _ \<Rightarrow> Inr cell)"

text \<open>The password is encoded for transport when it is truthy.\<close>

definition encode_password :: "runtime \<Rightarrow> json \<Rightarrow> error + json" where
  "encode_password rt config =
     (case get_prop config ''loginPassword'' of
        Inl e \<Rightarrow> Inl e
      | Inr None \<Rightarrow> Inr config
      | Inr (Some p) \<Rightarrow>
          if truthy p
          then (case encodeBase64 rt p of
                  Inl e \<Rightarrow> Inl e
                | Inr enc \<Rightarrow> Inr (set_prop config ''loginPassword'' enc))
          else Inr config)"

text \<open>The callback \<open>getConfig(dsn)\<close> hands to \<open>withConnection\<close>.\<close>

definition getConfig_callback :: "runtime \<Rightarrow> mysql_server \<Rightarrow> error + json" where
  "getConfig_callback rt connection =
     (case select_latest_config connection of
        Inl e \<Rightarrow> Inl e
      | Inr [] \<Rightarrow> Inr defaultConfig
      | Inr (cell # others) \<Rightarrow>
          (case decode_cell rt cell of
             Inl e \<Rightarrow> Inl e
           | Inr config \<Rightarrow> encode_password rt config))"

text \<open>
  \<open>getConfig(dsn)\<close>: the \<open>.catch\<close> and the enclosing \<open>try\<close> turn every
  rejection into the default record.
\<close>

definition getConfig :: "runtime \<Rightarrow> mysql_server \<Rightarrow> string option \<Rightarrow> bool \<Rightarrow> json \<times> bool" where
  "getConfig rt srv dsn pool =
     (if falsy_string dsn then (defaultConfig, pool)
      else (case withConnection srv dsn pool (getConfig_callback rt) of
              (Inl e, pool') \<Rightarrow> (defaultConfig, pool')
            | (Inr config, pool') \<Rightarrow> (config, pool')))"

text \<open>
  \<open>getPublicConfig(dsn)\<close>: no \<open>try\<close> of its own, so a failed destructuring would
  reject the promise.
\<close>

definition getPublicConfig ::
  "runtime \<Rightarrow> mysql_server \<Rightarrow> string option \<Rightarrow> bool \<Rightarrow> (error + json) \<times> bool" where
  "getPublicConfig rt srv dsn pool =
     (case getConfig rt srv dsn pool of
        (config, pool') \<Rightarrow> (rest_without ''loginPassword'' config, pool'))"

text \<open>\<open>verifyPassword(password, dsn)\<close>: the plain-text comparison.\<close>

definition verifyPassword_callback :: "runtime \<Rightarrow> json \<Rightarrow> mysql_server \<Rightarrow> error + bool" where
  "verifyPassword_callback rt candidate connection =
     (case select_latest_config connection of
        Inl e \<Rightarrow> Inl e
      | Inr [] \<Rightarrow> Inr True
      | Inr (cell # others) \<Rightarrow>
          (case decode_cell rt cell of
             Inl e \<Rightarrow> Inl e
           | Inr dbConfig \<Rightarrow>
               (case get_prop dbConfig ''loginPassword'' of
                  Inl e \<Rightarrow> Inl e
                | Inr stored \<Rightarrow> Inr (strict_equal candidate stored))))"

definition verifyPassword ::
  "runtime \<Rightarrow> mysql_server \<Rightarrow> json \<Rightarrow> string option \<Rightarrow> bool \<Rightarrow> bool \<times> bool" where
  "verifyPassword rt srv candidate dsn pool =
     (if falsy_string dsn then (True, pool)
      else (case withConnection srv dsn pool (verifyPassword_callback rt candidate) of
              (Inl e, pool') \<Rightarrow> (False, pool')
            | (Inr ok, pool') \<Rightarrow> (ok, pool')))"

section \<open>The configuration service of \<open>server/config-handler.js\<close>\<close>

text \<open>
  This variant takes the connection from the process environment and also speaks to
  PostgreSQL, through a client of its own: \<open>pg_answering\<close> says whether a statement
  of that client resolves, \<open>pg_configs\<close> holds the rows of its \<open>configs\<close> table
  (\<open>id SERIAL\<close>, \<open>config JSONB\<close>).
\<close>

record environment =
  SQL_DSN :: "string option"
  PG_CONNECTION_STRING :: "string option"

record pg_server =
  pg_answering :: bool
  pg_configs :: "(int \<times> json) list"

datatype db_type = mysql | postgresql

datatype connection = MySQLConnection mysql_server | PgClient pg_server

definition getDbConnectionInfo :: "environment \<Rightarrow> (db_type \<times> string) option" where
  "getDbConnectionInfo env =
     (case SQL_DSN env of
        Some sqlDsn \<Rightarrow>
          if sqlDsn \<noteq> [] then Some (mysql, sqlDsn)
          else (case PG_CONNECTION_STRING env of
                  Some pg \<Rightarrow> if pg \<noteq> [] then Some (postgresql, pg) else None
                | None \<Rightarrow> None)
      | None \<Rightarrow>
          (case PG_CONNECTION_STRING env of
             Some pg \<Rightarrow> if pg \<noteq> [] then Some (postgresql, pg) else None
           | None \<Rightarrow> None))"

definition pg_select_latest_config :: "pg_server \<Rightarrow> error + json list" where
  "pg_select_latest_config client =
     (if pg_answering client
      then Inr (case latest_row (pg_configs client) of None \<Rightarrow> [] | Some r \<Rightarrow> [snd r])
      else Inl DriverError)"

text \<open>
  \<open>withDatabaseConnection\<close>: with no connection information it returns the default
  record without calling the callback; the PostgreSQL branch creates the table first.
\<close>

definition withDatabaseConnection ::
  "environment \<Rightarrow> mysql_server \<Rightarrow> pg_server \<Rightarrow> bool \<Rightarrow> (connection \<Rightarrow> error + json)
     \<Rightarrow> (error + json) \<times> bool" where
  "withDatabaseConnection env my pg pool callback =
     (case getDbConnectionInfo env of
        None \<Rightarrow> (Inr defaultConfig, pool)
      | Some (mysql, connectionString) \<Rightarrow>
          withConnection my (Some connectionString) pool (\<lambda>c. callback (MySQLConnection c))
      | Some (postgresql, connectionString) \<Rightarrow>
          (if pg_answering pg then callback (PgClient pg) else Inl DriverError, pool))"

definition getConfig_env_callback :: "runtime \<Rightarrow> environment \<Rightarrow> connection \<Rightarrow> error + json" where
  "getConfig_env_callback rt env connection =
     (if map_option fst (getDbConnectionInfo env) = Some mysql
      then (case connection of
              MySQLConnection c \<Rightarrow>
                (case select_latest_config c of
                   Inl e \<Rightarrow> Inl e
                 | Inr [] \<Rightarrow> Inr defaultConfig
                 | Inr (cell # others) \<Rightarrow>
                     (case decode_cell rt cell of
                        Inl e \<Rightarrow> Inl e
                      | Inr config \<Rightarrow> encode_password rt config))
            | PgClient c \<Rightarrow> Inl TypeError)
      else (case connection of
              PgClient c \<Rightarrow>
                (case pg_select_latest_config c of
                   Inl e \<Rightarrow> Inl e
                 | Inr [] \<Rightarrow> Inr defaultConfig
                 | Inr (config # others) \<Rightarrow> encode_password rt config)
            | MySQLConnection c \<Rightarrow> Inl TypeError))"

definition getConfig_env ::
  "runtime \<Rightarrow> environment \<Rightarrow> mysql_server \<Rightarrow> pg_server \<Rightarrow> bool \<Rightarrow> json \<times> bool" where
  "getConfig_env rt env my pg pool =
     (case withDatabaseConnection env my pg pool (getConfig_env_callback rt env) of
        (Inl e, pool') \<Rightarrow> (defaultConfig, pool')
      | (Inr config, pool') \<Rightarrow> (config, pool'))"

definition getPublicConfig_env ::
  "runtime \<Rightarrow> environment \<Rightarrow> mysql_server \<Rightarrow> pg_server \<Rightarrow> bool \<Rightarrow> (error + json) \<times> bool" where
  "getPublicConfig_env rt env my pg pool =
     (case getConfig_env rt env my pg pool of
        (config, pool') \<Rightarrow> (rest_without ''loginPassword'' config, pool'))"

section \<open>The configuration service over the facade (\<open>src/api/server.ts\<close>)\<close>

text \<open>
  The third variant, which the repository keeps in
  \<open>src/src/components/VideoPlayer.vue\<close>, reads the record through the facade. Its \<open>getConfig(env)\<close> takes
  what \<open>db.get('config')\<close> gave (an error when the facade raised) and falls back
  to the default record on an error and on a falsy value; its
  \<open>verifyPassword(password, env)\<close> first looks at \<open>enableLogin\<close>.
\<close>

definition getConfig_server :: "error + json \<Rightarrow> json" where
  "getConfig_server got =
     (case got of
        Inl e \<Rightarrow> defaultConfig
      | Inr config \<Rightarrow> if \<not> truthy config then defaultConfig else config)"

definition verifyPassword_server :: "json \<Rightarrow> error + json \<Rightarrow> bool" where
  "verifyPassword_server candidate got =
     (let config = getConfig_server got in
      case get_prop config ''enableLogin'' of
        Inl e \<Rightarrow> False
      | Inr None \<Rightarrow> False
      | Inr (Some flag) \<Rightarrow>
          if \<not> truthy flag then False
          else (case get_prop config ''loginPassword'' of
                  Inl e \<Rightarrow> False
                | Inr stored \<Rightarrow> if strict_equal candidate stored then True else False))"

section \<open>Session tokens\<close>

text \<open>
  A request as the token code reads it: the header map (names in lower case),
  \<open>req.ip\<close> and \<open>req.connection.remoteAddress\<close>.
\<close>

record request =
  headers :: "string \<Rightarrow> string option"
  req_ip :: "string option"
  remoteAddress :: "string option"

text \<open>\<open>req.headers[name] || 'unknown'\<close>\<close>

definition header_or_unknown :: "request \<Rightarrow> string \<Rightarrow> string" where
  "header_or_unknown req name =
     (case headers req name of
        None \<Rightarrow> ''unknown''
      | Some v \<Rightarrow> if v = [] then ''unknown'' else v)"

text \<open>\<open>req.ip || req.connection.remoteAddress\<close>\<close>

definition client_ip :: "request \<Rightarrow> string option" where
  "client_ip req =
     (case req_ip req of
        None \<Rightarrow> remoteAddress req
      | Some a \<Rightarrow> if a = [] then remoteAddress req else Some a)"

record sec_fetch =
  site :: string
  mode :: string
  dest :: string

record fingerprint =
  userAgent :: string
  acceptLanguage :: string
  acceptEncoding :: string
  ip :: "string option"
  platform :: string
  mobile :: string
  secFetch :: sec_fetch

text \<open>
  \<open>generateDeviceFingerprint\<close>: the object it builds, and the last step,
  \<open>Buffer.from(JSON.stringify(fingerprint)).toString('base64')\<close>, which is the
  parameter \<open>encode\<close>.
\<close>

definition fingerprint_of :: "request \<Rightarrow> fingerprint" where
  "fingerprint_of req =
     \<lparr> userAgent = header_or_unknown req ''user-agent'',
       acceptLanguage = header_or_unknown req ''accept-language'',
       acceptEncoding = header_or_unknown req ''accept-encoding'',
       ip = client_ip req,
       platform = header_or_unknown req ''sec-ch-ua-platform'',
       mobile = header_or_unknown req ''sec-ch-ua-mobile'',
       secFetch = \<lparr> site = header_or_unknown req ''sec-fetch-site'',
                    mode = header_or_unknown req ''sec-fetch-mode'',
                    dest = header_or_unknown req ''sec-fetch-dest'' \<rparr> \<rparr>"

definition generateDeviceFingerprint :: "(fingerprint \<Rightarrow> 'e) \<Rightarrow> request \<Rightarrow> 'e" where
  "generateDeviceFingerprint encode req = encode (fingerprint_of req)"

text \<open>
  The \<open>jsonwebtoken\<close> library, symbolically: a token is a payload under the key that
  signed it, or a string that is no token. \<open>sign\<close> with \<open>expiresIn\<close> adds that many
  seconds to the payload's \<open>iat\<close>; \<open>verify\<close> raises unless the key is the signing
  key and the clock (in seconds) is before \<open>exp\<close>.
\<close>

record 'e payload =
  isAdmin :: bool
  deviceFingerprint :: "'e option"
  iat :: int
  login_ip :: "string option"
  exp :: "int option"

datatype 'e token = Signed "'e payload" string | Malformed

definition jwt_sign :: "'e payload \<Rightarrow> string \<Rightarrow> int \<Rightarrow> 'e token" where
  "jwt_sign claims secret expiresIn = Signed (claims\<lparr> exp := Some (iat claims + expiresIn) \<rparr>) secret"

fun signature_verifies :: "'e token \<Rightarrow> string \<Rightarrow> bool" where
  "signature_verifies (Signed claims k) secret = (k = secret)"
| "signature_verifies Malformed secret = False"

fun unexpired :: "'e token \<Rightarrow> int \<Rightarrow> bool" where
  "unexpired (Signed claims k) clock = (case exp claims of None \<Rightarrow> True | Some e \<Rightarrow> clock < e)"
| "unexpired Malformed clock = False"

fun payload_of :: "'e token \<Rightarrow> 'e payload option" where
  "payload_of (Signed claims k) = Some claims"
| "payload_of Malformed = None"

definition jwt_verify :: "'e token \<Rightarrow> string \<Rightarrow> int \<Rightarrow> error + 'e payload" where
  "jwt_verify tok secret clock =
     (case tok of
        Malformed \<Rightarrow> Inl JsonWebTokenError
      | Signed claims k \<Rightarrow>
          if k \<noteq> secret then Inl JsonWebTokenError
          else if \<not> unexpired tok clock then Inl TokenExpiredError
          else Inr claims)"

text \<open>
  \<open>generateToken(isAdmin, req)\<close> at \<open>Date.now() = now\<close>, and
  \<open>verifyToken(token, req)\<close> at \<open>Date.now() = now\<close> (the library's clock is
  \<open>now\<close> in whole seconds).
\<close>

definition generateToken ::
  "(fingerprint \<Rightarrow> 'e) \<Rightarrow> string \<Rightarrow> int \<Rightarrow> bool \<Rightarrow> request \<Rightarrow> 'e token" where
  "generateToken encode secret now admin req =
     jwt_sign \<lparr> isAdmin = admin,
                deviceFingerprint = Some (generateDeviceFingerprint encode req),
                iat = now,
                login_ip = client_ip req,
                exp = None \<rparr> secret (24 * 60 * 60)"

definition verifyToken ::
  "(fingerprint \<Rightarrow> 'e) \<Rightarrow> string \<Rightarrow> int \<Rightarrow> 'e token \<Rightarrow> request \<Rightarrow> 'e payload option" where
  "verifyToken encode secret now tok req =
     (case jwt_verify tok secret (now div 1000) of
        Inl e \<Rightarrow> None
      | Inr decoded \<Rightarrow>
          if deviceFingerprint decoded \<noteq> Some (generateDeviceFingerprint encode req) then None
          else Some decoded)"

section \<open>A runtime for the examples\<close>

text \<open>
  Base64 of the UTF-8 bytes of a string, and a \<open>JSON.parse\<close> that reads the literals
  \<open>null\<close>, \<open>true\<close>, \<open>false\<close> and a run of decimal digits with no leading zero, and
  raises on every other text. The examples below pass it nothing else.
\<close>

definition base64_alphabet :: string where
  "base64_alphabet = ''ABCDEFGHIJKLMNOPQRSTUVWXYZabcdefghijklmnopqrstuvwxyz0123456789+/''"

definition sextet :: "nat \<Rightarrow> char" where
  "sextet n = base64_alphabet ! (n mod 64)"

fun base64_bytes :: "nat list \<Rightarrow> string" where
  "base64_bytes [] = []"
| "base64_bytes [a] = [sextet (a div 4), sextet ((a mod 4) * 16), CHR ''='', CHR ''='']"
| "base64_bytes [a, b] =
     [sextet (a div 4), sextet ((a mod 4) * 16 + b div 16), sextet ((b mod 16) * 4), CHR ''='']"
| "base64_bytes (a # b # c # others) =
     [sextet (a div 4), sextet ((a mod 4) * 16 + b div 16),
      sextet ((b mod 16) * 4 + c div 64), sextet (c mod 64)] @ base64_bytes others"

definition utf8 :: "string \<Rightarrow> nat list" where
  "utf8 s =
     concat (map (\<lambda>c. let n = (of_char c :: nat)
                       in if n < 128 then [n] else [192 + n div 64, 128 + n mod 64]) s)"

definition parse_literal :: "string \<Rightarrow> json option" where
  "parse_literal s =
     (if s = ''null'' then Some JNull
      else if s = ''true'' then Some (JBool True)
      else if s = ''false'' then Some (JBool False)
      else if s \<noteq> [] \<and> list_all (is_digit 10) s \<and> (length s = 1 \<or> hd s \<noteq> CHR ''0'')
      then Some (JNum (int (digits_value 10 s)))
      else None)"

definition example_runtime :: runtime where
  "example_runtime =
     \<lparr> JSON_parse = parse_literal,
       to_base64 = (\<lambda>v. case v of JStr s \<Rightarrow> Some (base64_bytes (utf8 s)) | _ \<Rightarrow> None) \<rparr>"

section \<open>The adapters' state and their \<open>initialize\<close>\<close>

text \<open>
  The SQL adapter holds its DSN, whether it has a pool, and its flag. Its
  \<open>initialize\<close> never raises: the parse, the connection and the table creation stand
  inside one \<open>try\<close>, whose \<open>catch\<close> drops the pool.
\<close>

record sql_adapter =
  sql_dsn :: string
  sql_pool :: bool
  sql_initialized :: bool

definition new_SQLAdapter :: "string \<Rightarrow> sql_adapter" where
  "new_SQLAdapter dsn = \<lparr> sql_dsn = dsn, sql_pool = False, sql_initialized = False \<rparr>"

definition SQLAdapter_initialize :: "mysql_server \<Rightarrow> sql_adapter \<Rightarrow> bool \<times> sql_adapter" where
  "SQLAdapter_initialize srv a =
     (if sql_initialized a then (True, a)
      else if sql_dsn a = [] then (False, a)
      else (case parseDSN (sql_dsn a) of
              Inl e \<Rightarrow> (False, a\<lparr> sql_pool := False \<rparr>)
            | Inr opts \<Rightarrow>
                if accepting srv \<and> answering srv
                then (True, a\<lparr> sql_pool := True, sql_initialized := True \<rparr>)
                else (False, a\<lparr> sql_pool := False \<rparr>)))"

definition SQLAdapter_close :: "sql_adapter \<Rightarrow> sql_adapter" where
  "SQLAdapter_close a =
     (if sql_pool a then a\<lparr> sql_pool := False, sql_initialized := False \<rparr> else a)"

text \<open>
  The Postgres adapter opens a connection per call. \<open>pg_online\<close> says whether the
  statements of such a connection resolve; \<open>pg_rows\<close> holds the rows of the adapter's
  table (\<open>id TEXT PRIMARY KEY\<close>, \<open>config JSONB\<close>).
\<close>

datatype pg_connection = ConnectionString string | ConnectionOptions "(string \<times> json) list"

record pg_database =
  pg_online :: bool
  pg_rows :: "(string \<times> json) list"

record pg_adapter =
  pg_options :: pg_connection
  pg_tableName :: string
  pg_initialized :: bool

definition new_PgAdapter :: "pg_connection \<Rightarrow> string option \<Rightarrow> pg_adapter" where
  "new_PgAdapter conn tableName =
     \<lparr> pg_options = conn,
       pg_tableName = (case tableName of None \<Rightarrow> ''configs''
                       | Some t \<Rightarrow> if t = [] then ''configs'' else t),
       pg_initialized = False \<rparr>"

definition PgAdapter_initialize :: "pg_database \<Rightarrow> pg_adapter \<Rightarrow> bool \<times> pg_adapter" where
  "PgAdapter_initialize pg a =
     (if pg_initialized a then (True, a)
      else if pg_online pg then (True, a\<lparr> pg_initialized := True \<rparr>)
      else (False, a))"

definition PgAdapter_close :: "pg_adapter \<Rightarrow> pg_adapter" where
  "PgAdapter_close a = a\<lparr> pg_initialized := False \<rparr>"

text \<open>
  The key-value adapter wraps whatever it was given as namespace: a store (an object
  with the binding's methods; its content is the list of entries) or any other value.
\<close>

datatype kv_namespace = Store "(string \<times> string) list" | Other json

fun kv_truthy :: "kv_namespace \<Rightarrow> bool" where
  "kv_truthy (Store entries) = True"
| "kv_truthy (Other v) = truthy v"

text \<open>\<open>typeof x === 'object'\<close>\<close>

fun kv_is_object :: "kv_namespace \<Rightarrow> bool" where
  "kv_is_object (Store entries) = True"
| "kv_is_object (Other JNull) = True"
| "kv_is_object (Other (JArr xs)) = True"
| "kv_is_object (Other (JObj props)) = True"
| "kv_is_object (Other v) = False"

record kv_adapter =
  kv_handle :: kv_namespace
  kv_initialized :: bool

definition new_KVAdapter :: "kv_namespace \<Rightarrow> kv_adapter" where
  "new_KVAdapter ns = \<lparr> kv_handle = ns, kv_initialized = False \<rparr>"

definition KVAdapter_initialize :: "kv_adapter \<Rightarrow> bool \<times> kv_adapter" where
  "KVAdapter_initialize a =
     (if \<not> kv_truthy (kv_handle a) then (False, a)
      else if \<not> kv_is_object (kv_handle a) then (False, a)
      else (True, a\<lparr> kv_initialized := True \<rparr>))"

definition KVAdapter_close :: "kv_adapter \<Rightarrow> kv_adapter" where
  "KVAdapter_close a = a\<lparr> kv_initialized := False \<rparr>"

section \<open>Reading and writing through the SQL adapter\<close>



text \<open>\<open>UPDATE ... SET config = ? WHERE id = ?\<close>\<close>

definition update_where_id :: "('k \<times> json) list \<Rightarrow> 'k \<Rightarrow> json \<Rightarrow> ('k \<times> json) list" where
  "update_where_id rows i v = map (\<lambda>r. if fst r = i then (i, v) else r) rows"

text \<open>\<open>INSERT ... (id, config) VALUES (?, ?)\<close>\<close>

definition insert_row :: "('k \<times> json) list \<Rightarrow> 'k \<Rightarrow> json \<Rightarrow> ('k \<times> json) list" where
  "insert_row rows i v = rows @ [(i, v)]"

text \<open>\<open>if (!this.pool) await this.initialize()\<close>\<close>

definition ensure_pool :: "mysql_server \<Rightarrow> sql_adapter \<Rightarrow> sql_adapter" where
  "ensure_pool srv a = (if sql_pool a then a else snd (SQLAdapter_initialize srv a))"



section \<open>Reading and writing through the Postgres adapter\<close>

text \<open>\<open>!this.initialized && !(await this.initialize())\<close>, with the adapter it leaves.\<close>

definition ensure_initialized :: "pg_database \<Rightarrow> pg_adapter \<Rightarrow> bool \<times> pg_adapter" where
  "ensure_initialized pg a = (if pg_initialized a then (True, a) else PgAdapter_initialize pg a)"



text \<open>\<open>INSERT ... ON CONFLICT (id) DO UPDATE SET config = ...\<close>\<close>

definition upsert :: "('k \<times> json) list \<Rightarrow> 'k \<Rightarrow> json \<Rightarrow> ('k \<times> json) list" where
  "upsert rows i v =
     (if i \<in> fst ` set rows then update_where_id rows i v else insert_row rows i v)"


section \<open>The upsert scenario\<close>












section \<open>Transactions\<close>

text \<open>
  The handle a transaction gives its callback: the SQL adapter's copy of itself with
  \<open>query\<close> and \<open>transaction\<close> replaced, the Postgres adapter's temporary adapter,
  or, for the key-value adapter, the adapter itself. A callback is any function from
  the handle to a step on the store that may raise; the store is whatever the backend
  keeps, and the step stands for all the callback does through the handle's reading
  and writing methods. Of the handle's methods, \<open>transaction\<close> is the one written
  out.
\<close>

datatype handle =
    SQLTransactionAdapter sql_adapter
  | PgTempAdapter pg_adapter
  | KVSelf kv_adapter

text \<open>The \<open>transaction\<close> method of a handle.\<close>

fun handle_transaction ::
  "handle \<Rightarrow> (handle \<Rightarrow> 's \<Rightarrow> (error + 'a) \<times> 's) \<Rightarrow> 's \<Rightarrow> (error + 'a) \<times> 's" where
  "handle_transaction (SQLTransactionAdapter a) cb s = (Inl NestedTransaction, s)"
| "handle_transaction (PgTempAdapter a) cb s = cb (PgTempAdapter a) s"
| "handle_transaction (KVSelf a) cb s = cb (KVSelf a) s"

text \<open>
  \<open>SQLAdapter.transaction(callback)\<close>: commit keeps what the callback did, rollback
  restores the server as it was at \<open>beginTransaction\<close>, and the error goes on to the
  caller.
\<close>

definition SQLAdapter_transaction ::
  "sql_adapter \<Rightarrow> (handle \<Rightarrow> mysql_server \<Rightarrow> (error + 'a) \<times> mysql_server) \<Rightarrow> mysql_server
     \<Rightarrow> (error + 'a) \<times> sql_adapter \<times> mysql_server" where
  "SQLAdapter_transaction a callback srv =
     (let a1 = ensure_pool srv a in
      if \<not> sql_pool a1 then (Inl NotInitialized, a1, srv)
      else if \<not> accepting srv \<or> \<not> answering srv then (Inl DriverError, a1, srv)
      else (case callback (SQLTransactionAdapter a1) srv of
              (Inr result, srv') \<Rightarrow> (Inr result, a1, srv')
            | (Inl e, srv') \<Rightarrow> (Inl e, a1, srv)))"

text \<open>\<open>PgAdapter.transaction(callback)\<close>, through \<open>sql.begin\<close>.\<close>

definition PgAdapter_transaction ::
  "pg_adapter \<Rightarrow> (handle \<Rightarrow> pg_database \<Rightarrow> (error + 'a) \<times> pg_database) \<Rightarrow> pg_database
     \<Rightarrow> (error + 'a) \<times> pg_adapter \<times> pg_database" where
  "PgAdapter_transaction a callback pg =
     (case ensure_initialized pg a of
        (False, a1) \<Rightarrow> (Inl NotInitialized, a1, pg)
      | (True, a1) \<Rightarrow>
          if \<not> pg_online pg then (Inl DriverError, a1, pg)
          else (case callback (PgTempAdapter a1) pg of
                  (Inr result, pg') \<Rightarrow> (Inr result, a1, pg')
                | (Inl e, pg') \<Rightarrow> (Inl e, a1, pg)))"

text \<open>\<open>KVAdapter.transaction(callback)\<close>: \<open>return await callback(this)\<close>.\<close>

definition KVAdapter_transaction ::
  "kv_adapter \<Rightarrow> (handle \<Rightarrow> 's \<Rightarrow> (error + 'a) \<times> 's) \<Rightarrow> 's \<Rightarrow> (error + 'a) \<times> 's" where
  "KVAdapter_transaction a callback s = callback (KVSelf a) s"

section \<open>The facade (\<open>Database\<close>)\<close>

datatype adapter = SQLAdapter sql_adapter | PgAdapter pg_adapter | KVAdapter kv_adapter

datatype backend = SQL | Postgres | KeyValue

text \<open>What the facade does to the outside: the log each call returns.\<close>

datatype event = Constructed backend | InitializeCalled backend | CloseCalled backend

record pg_config =
  connection :: pg_connection
  tableName :: "string option"

record database_config =
  sqlDsn :: "string option"
  pgConfig :: "pg_config option"
  kvNamespace :: "kv_namespace option"

record world =
  mysql_world :: mysql_server
  pg_world :: pg_database

record database =
  adapter :: "adapter option"
  initialized :: bool

fun backend_of :: "adapter \<Rightarrow> backend" where
  "backend_of (SQLAdapter a) = SQL"
| "backend_of (PgAdapter a) = Postgres"
| "backend_of (KVAdapter a) = KeyValue"

fun adapter_initialize :: "world \<Rightarrow> adapter \<Rightarrow> bool \<times> adapter" where
  "adapter_initialize w (SQLAdapter a) =
     (case SQLAdapter_initialize (mysql_world w) a of (ok, a') \<Rightarrow> (ok, SQLAdapter a'))"
| "adapter_initialize w (PgAdapter a) =
     (case PgAdapter_initialize (pg_world w) a of (ok, a') \<Rightarrow> (ok, PgAdapter a'))"
| "adapter_initialize w (KVAdapter a) =
     (case KVAdapter_initialize a of (ok, a') \<Rightarrow> (ok, KVAdapter a'))"

fun adapter_close :: "adapter \<Rightarrow> adapter" where
  "adapter_close (SQLAdapter a) = SQLAdapter (SQLAdapter_close a)"
| "adapter_close (PgAdapter a) = PgAdapter (PgAdapter_close a)"
| "adapter_close (KVAdapter a) = KVAdapter (KVAdapter_close a)"

text \<open>The truthiness tests of the three \<open>if\<close>s of \<open>Database.initialize\<close>.\<close>

definition sqlDsn_given :: "database_config \<Rightarrow> bool" where
  "sqlDsn_given config = (\<not> falsy_string (sqlDsn config))"

definition pgConfig_given :: "database_config \<Rightarrow> bool" where
  "pgConfig_given config =
     (case pgConfig config of
        None \<Rightarrow> False
      | Some p \<Rightarrow> (case connection p of ConnectionString s \<Rightarrow> s \<noteq> []
                  | ConnectionOptions opts \<Rightarrow> True))"

definition kv_given :: "database_config \<Rightarrow> bool" where
  "kv_given config = (case kvNamespace config of None \<Rightarrow> False | Some ns \<Rightarrow> kv_truthy ns)"

text \<open>
  One priority block of \<open>Database.initialize\<close>: construct, initialize, and either
  return true (\<open>Some True\<close>) or clear \<open>this.adapter\<close> and fall through (\<open>None\<close>).
\<close>

definition attempt ::
  "world \<Rightarrow> adapter \<Rightarrow> database \<times> event list \<Rightarrow> bool option \<times> database \<times> event list" where
  "attempt w fresh st =
     (case st of (db, log) \<Rightarrow>
        (let log' = log @ [Constructed (backend_of fresh), InitializeCalled (backend_of fresh)]
         in case adapter_initialize w fresh of
              (True, a') \<Rightarrow> (Some True, db\<lparr> adapter := Some a', initialized := True \<rparr>, log')
            | (False, a') \<Rightarrow> (None, db\<lparr> adapter := None \<rparr>, log')))"

text \<open>The three blocks, in the order the method has them.\<close>

definition sql_block ::
  "world \<Rightarrow> database_config \<Rightarrow> database \<times> event list \<Rightarrow> bool option \<times> database \<times> event list" where
  "sql_block w config st =
     (case sqlDsn config of
        None \<Rightarrow> (None, st)
      | Some dsn \<Rightarrow>
          if dsn \<noteq> [] then attempt w (SQLAdapter (new_SQLAdapter dsn)) st else (None, st))"

definition pg_block ::
  "world \<Rightarrow> database_config \<Rightarrow> database \<times> event list \<Rightarrow> bool option \<times> database \<times> event list" where
  "pg_block w config st =
     (case pgConfig config of
        None \<Rightarrow> (None, st)
      | Some p \<Rightarrow>
          if adapter (fst st) = None \<and> pgConfig_given config
          then attempt w (PgAdapter (new_PgAdapter (connection p) (tableName p))) st
          else (None, st))"

definition kv_block ::
  "world \<Rightarrow> database_config \<Rightarrow> database \<times> event list \<Rightarrow> bool option \<times> database \<times> event list" where
  "kv_block w config st =
     (case kvNamespace config of
        None \<Rightarrow> (None, st)
      | Some ns \<Rightarrow>
          if adapter (fst st) = None \<and> kv_truthy ns
          then attempt w (KVAdapter (new_KVAdapter ns)) st
          else (None, st))"

text \<open>
  \<open>Database.initialize(config)\<close>. Nothing inside its \<open>try\<close> raises in this model
  (the adapters' \<open>initialize\<close> catch their own failures), so the \<open>catch\<close> has no
  branch here; closing a left-over adapter is taken to succeed.
\<close>

definition Database_initialize ::
  "world \<Rightarrow> database_config \<Rightarrow> database \<Rightarrow> bool \<times> database \<times> event list" where
  "Database_initialize w config db =
     (if initialized db \<and> adapter db \<noteq> None then (True, db, [])
      else
        (let st0 = (case adapter db of
                      None \<Rightarrow> (db, [])
                    | Some a \<Rightarrow> (db\<lparr> adapter := None \<rparr>, [CloseCalled (backend_of a)]))
         in case sql_block w config st0 of
              (Some b, st1) \<Rightarrow> (b, st1)
            | (None, st1) \<Rightarrow>
                (case pg_block w config st1 of
                   (Some b, st2) \<Rightarrow> (b, st2)
                 | (None, st2) \<Rightarrow>
                     (case kv_block w config st2 of
                        (Some b, st3) \<Rightarrow> (b, st3)
                      | (None, db3, log3) \<Rightarrow>
                          if adapter db3 = None then (False, db3, log3)
                          else (True, db3, log3)))))"

definition Database_close :: "database \<Rightarrow> database \<times> event list" where
  "Database_close db =
     (case adapter db of
        None \<Rightarrow> (db, [])
      | Some a \<Rightarrow> (db\<lparr> adapter := None, initialized := False \<rparr>, [CloseCalled (backend_of a)]))"

text \<open>A run of further \<open>initialize\<close> calls, each with its own world and configuration.\<close>

fun initialize_each ::
  "(world \<times> database_config) list \<Rightarrow> database \<Rightarrow> (bool \<times> event list) list \<times> database" where
  "initialize_each [] db = ([], db)"
| "initialize_each ((w, config) # calls) db =
     (case Database_initialize w config db of
        (ok, db', log) \<Rightarrow>
          (case initialize_each calls db' of
             (results, db'') \<Rightarrow> ((ok, log) # results, db'')))"

section \<open>The selection rule, in the specification's words\<close>

text \<open>
  Candidates are taken in the given order. A candidate that is present in the
  configuration has its adapter constructed and initialized; the first success is
  bound and ends the search; a failure discards the instance and moves on.
\<close>

definition present :: "database_config \<Rightarrow> backend \<Rightarrow> bool" where
  "present config b =
     (case b of SQL \<Rightarrow> sqlDsn_given config
      | Postgres \<Rightarrow> pgConfig_given config
      | KeyValue \<Rightarrow> kv_given config)"

definition construct :: "database_config \<Rightarrow> backend \<Rightarrow> adapter option" where
  "construct config b =
     (case b of
        SQL \<Rightarrow> map_option (\<lambda>dsn. SQLAdapter (new_SQLAdapter dsn)) (sqlDsn config)
      | Postgres \<Rightarrow>
          map_option (\<lambda>p. PgAdapter (new_PgAdapter (connection p) (tableName p))) (pgConfig config)
      | KeyValue \<Rightarrow> map_option (\<lambda>ns. KVAdapter (new_KVAdapter ns)) (kvNamespace config))"

fun select_in_order ::
  "world \<Rightarrow> database_config \<Rightarrow> backend list \<Rightarrow> adapter option \<times> event list" where
  "select_in_order w config [] = (None, [])"
| "select_in_order w config (b # bs) =
     (if present config b
      then (case construct config b of
              None \<Rightarrow> select_in_order w config bs
            | Some fresh \<Rightarrow>
                (case adapter_initialize w fresh of
                   (True, bound) \<Rightarrow> (Some bound, [Constructed b, InitializeCalled b])
                 | (False, discarded) \<Rightarrow>
                     (case select_in_order w config bs of
                        (found, log) \<Rightarrow> (found, [Constructed b, InitializeCalled b] @ log))))
      else select_in_order w config bs)"

text \<open>
  The same rule as a loop over the state of the facade, one candidate at a time; the
  proofs go through it.
\<close>

definition try_candidate ::
  "world \<Rightarrow> database_config \<Rightarrow> backend \<Rightarrow> database \<times> event list
     \<Rightarrow> bool option \<times> database \<times> event list" where
  "try_candidate w config b st =
     (if present config b
      then (case construct config b of
              None \<Rightarrow> (None, st)
            | Some fresh \<Rightarrow> attempt w fresh st)
      else (None, st))"

fun try_candidates ::
  "world \<Rightarrow> database_config \<Rightarrow> backend list \<Rightarrow> database \<times> event list
     \<Rightarrow> bool \<times> database \<times> event list" where
  "try_candidates w config [] st =
     (if adapter (fst st) = None then (False, st) else (True, st))"
| "try_candidates w config (b # bs) st =
     (case try_candidate w config b st of
        (Some r, st') \<Rightarrow> (r, st')
      | (None, st') \<Rightarrow> try_candidates w config bs st')"

section \<open>A world and a configuration for the examples\<close>

text \<open>
  MySQL refuses connections, PostgreSQL answers; the configuration names all three
  backends.
\<close>

definition example_world :: world where
  "example_world =
     \<lparr> mysql_world = \<lparr> accepting = False, answering = False, configs = [] \<rparr>,
       pg_world = \<lparr> pg_online = True, pg_rows = [] \<rparr> \<rparr>"

definition example_config :: database_config where
  "example_config =
     \<lparr> sqlDsn = Some ''u:p@h:3306/d'',
       pgConfig = Some \<lparr> connection = ConnectionString ''postgres://u:p@h/d'',
                         tableName = None \<rparr>,
       kvNamespace = Some (Store []) \<rparr>"

definition example_bound :: database where
  "example_bound =
     \<lparr> adapter = Some (PgAdapter \<lparr> pg_options = ConnectionString ''postgres://u:p@h/d'',
                                   pg_tableName = ''configs'',
                                   pg_initialized = True \<rparr>),
       initialized = True \<rparr>"

text \<open>Two requests for the examples: a browser, and the same address with another agent.\<close>

definition browser_request :: request where
  "browser_request =
     \<lparr> headers = [''user-agent'' \<mapsto> ''Mozilla/5.0'', ''accept-language'' \<mapsto> ''en''],
       req_ip = Some ''10.0.0.1'',
       remoteAddress = Some ''10.0.0.1'' \<rparr>"

definition curl_request :: request where
  "curl_request =
     \<lparr> headers = [''user-agent'' \<mapsto> ''curl/8.0'', ''accept-language'' \<mapsto> ''en''],
       req_ip = Some ''10.0.0.1'',
       remoteAddress = Some ''10.0.0.1'' \<rparr>"

chapter \<open>Properties\<close>

lemma split_on_not_Nil: "split_on c s \<noteq> []"
  by (induction s) (auto split: list.splits)

section \<open>Facts about the JavaScript values\<close>

lemma latest_row_None: "latest_row rs = None \<longleftrightarrow> rs = []"
  by (induction rs) (auto split: option.splits)

lemma get_prop_not_null: "get_prop v name = Inr x \<Longrightarrow> v \<noteq> JNull"
  by (cases v) auto

lemma set_prop_not_null: "v \<noteq> JNull \<Longrightarrow> set_prop v name x \<noteq> JNull"
  by (cases v) auto

lemma digit_char_is_digit: "d < 10 \<Longrightarrow> digit_char d \<in> set ''0123456789''"
proof -
  assume "d < 10"
  then have "d \<in> {0, 1, 2, 3, 4, 5, 6, 7, 8, 9}" by auto
  then show ?thesis by (auto simp: digit_char_def)
qed

lemma decimal_digits: "set (decimal n) \<subseteq> set ''0123456789''"
proof (induction n rule: decimal.induct)
  case (1 n)
  show ?case
  proof (cases "n < 10")
    case True
    then show ?thesis using digit_char_is_digit [of n] by (subst decimal.simps) simp
  next
    case False
    have "n mod 10 < 10" by simp
    from digit_char_is_digit [OF this] 1 [OF False] False show ?thesis
      by (subst decimal.simps) simp
  qed
qed

lemma decimal_not_loginPassword: "decimal n \<noteq> ''loginPassword''"
proof
  assume "decimal n = ''loginPassword''"
  then have "CHR ''l'' \<in> set (decimal n)" by simp
  with decimal_digits [of n] show False by auto
qed

lemma filter_drops_key: "name \<notin> fst ` set (filter (\<lambda>(k, v). k \<noteq> name) kvs)"
  by auto

lemma rest_without_drops:
  "v \<noteq> JNull \<Longrightarrow> \<exists>props. rest_without name v = Inr (JObj props) \<and> name \<notin> fst ` set props"
  by (cases v) auto

section \<open>Facts about the configuration service\<close>

lemma encode_password_not_null: "encode_password rt config = Inr c \<Longrightarrow> c \<noteq> JNull"
  by (auto simp: encode_password_def set_prop_not_null get_prop_not_null
      split: sum.splits option.splits if_splits)

lemma defaultConfig_not_null: "defaultConfig \<noteq> JNull"
  by (simp add: defaultConfig_def)

lemma getConfig_callback_not_null: "getConfig_callback rt c = Inr config \<Longrightarrow> config \<noteq> JNull"
  by (auto simp: getConfig_callback_def decode_cell_def defaultConfig_not_null
      split: sum.splits list.splits json.splits option.splits dest: encode_password_not_null)

lemma withConnection_result:
  "fst (withConnection srv dsn pool callback) = Inr x \<Longrightarrow> callback srv = Inr x"
  by (auto simp: withConnection_def split: prod.splits bool.splits if_splits)

lemma getConfig_cases:
  "fst (getConfig rt srv dsn pool) = defaultConfig \<or>
   getConfig_callback rt srv = Inr (fst (getConfig rt srv dsn pool))"
proof (cases "falsy_string dsn")
  case True
  then show ?thesis by (simp add: getConfig_def)
next
  case False
  obtain r p where w: "withConnection srv dsn pool (getConfig_callback rt) = (r, p)"
    by (cases "withConnection srv dsn pool (getConfig_callback rt)")
  show ?thesis
  proof (cases r)
    case (Inl e)
    with False w show ?thesis by (simp add: getConfig_def)
  next
    case (Inr config)
    with w have "fst (withConnection srv dsn pool (getConfig_callback rt)) = Inr config" by simp
    from withConnection_result [OF this] Inr False w show ?thesis by (simp add: getConfig_def)
  qed
qed

lemma getConfig_not_null: "fst (getConfig rt srv dsn pool) \<noteq> JNull"
  using getConfig_cases [of rt srv dsn pool] defaultConfig_not_null
    getConfig_callback_not_null [of rt srv "fst (getConfig rt srv dsn pool)"]
  by auto

lemma getConfig_env_callback_not_null:
  "getConfig_env_callback rt env c = Inr config \<Longrightarrow> config \<noteq> JNull"
  by (auto simp: getConfig_env_callback_def decode_cell_def defaultConfig_not_null
      split: sum.splits list.splits json.splits option.splits connection.splits if_splits
      dest: encode_password_not_null)

lemma getConfig_env_not_null: "fst (getConfig_env rt env my pg pool) \<noteq> JNull"
proof -
  obtain r p where
    w: "withDatabaseConnection env my pg pool (getConfig_env_callback rt env) = (r, p)"
    by (cases "withDatabaseConnection env my pg pool (getConfig_env_callback rt env)")
  show ?thesis
  proof (cases r)
    case (Inl e)
    with w show ?thesis by (simp add: getConfig_env_def defaultConfig_not_null)
  next
    case (Inr config)
    have "config \<noteq> JNull"
    proof (cases "getDbConnectionInfo env")
      case None
      with w Inr show ?thesis by (auto simp: withDatabaseConnection_def defaultConfig_not_null)
    next
      case (Some info)
      obtain t cs where info: "info = (t, cs)" by (cases info)
      show ?thesis
      proof (cases t)
        case mysql
        with w Inr Some info
        have "fst (withConnection my (Some cs) pool
                 (\<lambda>c. getConfig_env_callback rt env (MySQLConnection c))) = Inr config"
          by (simp add: withDatabaseConnection_def)
        from withConnection_result [OF this] show ?thesis
          by (rule getConfig_env_callback_not_null)
      next
        case postgresql
        with w Inr Some info have "getConfig_env_callback rt env (PgClient pg) = Inr config"
          by (auto simp: withDatabaseConnection_def split: if_splits)
        then show ?thesis by (rule getConfig_env_callback_not_null)
      qed
    qed
    with w Inr show ?thesis by (simp add: getConfig_env_def)
  qed
qed

section \<open>Claims about the configuration service\<close>

text \<open>
  What the variant that takes the DSN does with a stored record: it compares the
  candidate with \<open>loginPassword\<close> and reads nothing else.
\<close>

lemma verifyPassword_compares_stored_password:
  assumes "\<not> falsy_string dsn"
    and "fst (initializePool srv dsn pool)"
    and "accepting srv"
    and "answering srv"
    and "latest_row (configs srv) = Some (i, JObj props)"
  shows "fst (verifyPassword rt srv candidate dsn pool)
           = strict_equal candidate (map_of props ''loginPassword'')"
  using assms
  by (auto simp: verifyPassword_def withConnection_def verifyPassword_callback_def
      select_latest_config_def decode_cell_def
      split: prod.splits sum.splits bool.splits list.splits)

text \<open>
  The variant over the facade does what claim C1 says: with \<open>enableLogin\<close> absent or
  falsy in the record it works on, it returns false for every candidate.
\<close>

lemma verifyPassword_server_needs_enableLogin:
  assumes "get_prop (getConfig_server got) ''enableLogin'' = Inr flag"
    and "flag = None \<or> (\<exists>f. flag = Some f \<and> \<not> truthy f)"
  shows "verifyPassword_server candidate got = False"
  using assms by (auto simp: verifyPassword_server_def Let_def)

text \<open>
  Claim C1: regular-user \<open>verifyPassword\<close> returns false whenever the stored
  record's \<open>enableLogin\<close> is false. The variant that takes the DSN, which the claim
  cites, misses the check that the variant over the facade makes. At the stored record
  \<open>{enableLogin: false, loginPassword: "abc"}\<close> and the candidate \<open>"abc"\<close>
  the first returns true and the second false.
\<close>

theorem verifyPassword_enableLogin_failing_input:
  "get_prop (JObj [(''enableLogin'', JBool False), (''loginPassword'', JStr ''abc'')]) ''enableLogin''
     = Inr (Some (JBool False)) \<and>
   fst (verifyPassword example_runtime
         \<lparr> accepting = True, answering = True,
           configs = [(1, JObj [(''enableLogin'', JBool False), (''loginPassword'', JStr ''abc'')])] \<rparr>
         (JStr ''abc'') (Some ''u:p@h:3306/d'') False) = True \<and>
   verifyPassword_server (JStr ''abc'')
     (Inr (JObj [(''enableLogin'', JBool False), (''loginPassword'', JStr ''abc'')])) = False"
  by (simp add: verifyPassword_def withConnection_def initializePool_def parseDSN_def
      verifyPassword_callback_def select_latest_config_def decode_cell_def
      verifyPassword_server_def getConfig_server_def)

text \<open>
  Claim C8: for every stored record, the value \<open>getPublicConfig\<close> returns is an object
  with no \<open>loginPassword\<close> property; the call never rejects. This holds for the
  variant that takes a DSN and for the variant of \<open>server/config-handler.js\<close>.
\<close>

theorem getPublicConfig_has_no_loginPassword:
  "(\<exists>props. fst (getPublicConfig rt srv dsn pool) = Inr (JObj props)
        \<and> ''loginPassword'' \<notin> fst ` set props) \<and>
   (\<exists>props. fst (getPublicConfig_env rt env my pg pool) = Inr (JObj props)
        \<and> ''loginPassword'' \<notin> fst ` set props)"
proof
  obtain c p where g: "getConfig rt srv dsn pool = (c, p)"
    by (cases "getConfig rt srv dsn pool")
  with getConfig_not_null [of rt srv dsn pool] have "c \<noteq> JNull" by simp
  from rest_without_drops [OF this, of "''loginPassword''"] g
  show "\<exists>props. fst (getPublicConfig rt srv dsn pool) = Inr (JObj props)
          \<and> ''loginPassword'' \<notin> fst ` set props"
    by (simp add: getPublicConfig_def)
next
  obtain c p where g: "getConfig_env rt env my pg pool = (c, p)"
    by (cases "getConfig_env rt env my pg pool")
  with getConfig_env_not_null [of rt env my pg pool] have "c \<noteq> JNull" by simp
  from rest_without_drops [OF this, of "''loginPassword''"] g
  show "\<exists>props. fst (getPublicConfig_env rt env my pg pool) = Inr (JObj props)
          \<and> ''loginPassword'' \<notin> fst ` set props"
    by (simp add: getPublicConfig_env_def)
qed

theorem getPublicConfig_has_no_loginPassword_witness:
  "fst (getPublicConfig example_runtime
         \<lparr> accepting = True, answering = True,
           configs = [(1, JObj [(''enableLogin'', JBool True), (''loginPassword'', JStr '''')])] \<rparr>
         (Some ''u:p@h:3306/d'') False) = Inr (JObj [(''enableLogin'', JBool True)]) \<and>
   fst (getPublicConfig_env example_runtime
         \<lparr> SQL_DSN = None, PG_CONNECTION_STRING = Some ''postgresql://u:p@h/d'' \<rparr>
         \<lparr> accepting = False, answering = False, configs = [] \<rparr>
         \<lparr> pg_answering = True, pg_configs = [(1, JObj [(''parseApi'', JStr ''x'')])] \<rparr>
         False) = Inr (JObj [(''parseApi'', JStr ''x'')])"
  using getPublicConfig_has_no_loginPassword
    [of example_runtime
        "\<lparr> accepting = True, answering = True,
           configs = [(1, JObj [(''enableLogin'', JBool True), (''loginPassword'', JStr '''')])] \<rparr>"
        "Some ''u:p@h:3306/d''" False
        "\<lparr> SQL_DSN = None, PG_CONNECTION_STRING = Some ''postgresql://u:p@h/d'' \<rparr>"
        "\<lparr> accepting = False, answering = False, configs = [] \<rparr>"
        "\<lparr> pg_answering = True, pg_configs = [(1, JObj [(''parseApi'', JStr ''x'')])] \<rparr>"]
  by (simp add: getPublicConfig_def getConfig_def withConnection_def initializePool_def
      parseDSN_def getConfig_callback_def select_latest_config_def decode_cell_def
      encode_password_def getPublicConfig_env_def getConfig_env_def withDatabaseConnection_def
      getDbConnectionInfo_def getConfig_env_callback_def pg_select_latest_config_def)

text \<open>
  Claim C9: \<open>getConfig\<close> never returns \<open>null\<close>, and it returns the literal default
  record when no DSN is given, when no pool or connection can be had, when the query
  rejects or any later step of the read raises, and when the query returns no row.
\<close>

theorem getConfig_falls_back_to_default:
  "fst (getConfig rt srv dsn pool) \<noteq> JNull \<and>
   (falsy_string dsn \<or> \<not> fst (initializePool srv dsn pool) \<or> \<not> accepting srv
      \<or> \<not> answering srv \<or> configs srv = []
      \<or> (\<exists>e. fst (withConnection srv dsn pool (getConfig_callback rt)) = Inl e)
    \<longrightarrow> fst (getConfig rt srv dsn pool)
          = JObj [(''resourceSites'', JArr []), (''parseApi'', JStr ''''),
                  (''backgroundImage'', JStr ''''), (''enableLogin'', JBool False),
                  (''loginPassword'', JStr ''''), (''announcement'', JStr ''''),
                  (''customTitle'', JStr '''')])"
proof
  show "fst (getConfig rt srv dsn pool) \<noteq> JNull" by (rule getConfig_not_null)
next
  show "falsy_string dsn \<or> \<not> fst (initializePool srv dsn pool) \<or> \<not> accepting srv
      \<or> \<not> answering srv \<or> configs srv = []
      \<or> (\<exists>e. fst (withConnection srv dsn pool (getConfig_callback rt)) = Inl e)
    \<longrightarrow> fst (getConfig rt srv dsn pool)
          = JObj [(''resourceSites'', JArr []), (''parseApi'', JStr ''''),
                  (''backgroundImage'', JStr ''''), (''enableLogin'', JBool False),
                  (''loginPassword'', JStr ''''), (''announcement'', JStr ''''),
                  (''customTitle'', JStr '''')]"
    by (auto simp: getConfig_def withConnection_def getConfig_callback_def
        select_latest_config_def defaultConfig_def
        split: prod.splits sum.splits bool.splits)
qed

theorem getConfig_falls_back_to_default_witness:
  "fst (getConfig example_runtime \<lparr> accepting = True, answering = False, configs = [(1, JNull)] \<rparr>
         (Some ''u:p@h:3306/d'') True)
     = JObj [(''resourceSites'', JArr []), (''parseApi'', JStr ''''),
             (''backgroundImage'', JStr ''''), (''enableLogin'', JBool False),
             (''loginPassword'', JStr ''''), (''announcement'', JStr ''''),
             (''customTitle'', JStr '''')]"
  using getConfig_falls_back_to_default
    [of example_runtime "\<lparr> accepting = True, answering = False, configs = [(1, JNull)] \<rparr>"
        "Some ''u:p@h:3306/d''" True]
  by simp

text \<open>
  Claim C10: regular-user \<open>verifyPassword\<close> accepts every candidate when no DSN is
  given, and when the pool, the connection and the query all succeed and the
  \<open>configs\<close> table holds no row.
\<close>

theorem verifyPassword_accepts_without_record:
  "(falsy_string dsn \<longrightarrow> fst (verifyPassword rt srv candidate dsn pool) = True) \<and>
   (\<not> falsy_string dsn \<and> fst (initializePool srv dsn pool) \<and> accepting srv
      \<and> answering srv \<and> configs srv = []
    \<longrightarrow> fst (verifyPassword rt srv candidate dsn pool) = True)"
  by (auto simp: verifyPassword_def withConnection_def verifyPassword_callback_def
      select_latest_config_def split: prod.splits sum.splits bool.splits list.splits)

theorem verifyPassword_accepts_without_record_witness:
  "fst (verifyPassword example_runtime \<lparr> accepting = False, answering = False, configs = [] \<rparr>
         (JStr ''anything'') None False) = True \<and>
   fst (verifyPassword example_runtime \<lparr> accepting = True, answering = True, configs = [] \<rparr>
         (JStr ''anything'') (Some ''u:p@h:3306/d'') False) = True"
  using verifyPassword_accepts_without_record
    [of None example_runtime "\<lparr> accepting = False, answering = False, configs = [] \<rparr>"
        "JStr ''anything''" False]
    verifyPassword_accepts_without_record
    [of "Some ''u:p@h:3306/d''" example_runtime
        "\<lparr> accepting = True, answering = True, configs = [] \<rparr>" "JStr ''anything''" False]
  by (simp add: initializePool_def parseDSN_def)

section \<open>Claims about the DSN parser\<close>

lemma takeWhile_absent: "c \<notin> set s \<Longrightarrow> takeWhile (\<lambda>x. x \<noteq> c) s = s"
  by (induction s) auto

lemma split_on_absent: "c \<notin> set s \<Longrightarrow> split_on c s = [s]"
  by (induction s) auto

lemma split_on_present:
  "c \<in> set s \<Longrightarrow>
   split_on c s = takeWhile (\<lambda>x. x \<noteq> c) s # split_on c (tl (dropWhile (\<lambda>x. x \<noteq> c) s))"
proof (induction s)
  case Nil
  then show ?case by simp
next
  case (Cons x xs)
  show ?case
  proof (cases "x = c")
    case True
    then show ?thesis by simp
  next
    case False
    with Cons.prems have "c \<in> set xs" by simp
    from Cons.IH [OF this] False show ?thesis by simp
  qed
qed

lemma element_split_on_0: "element (split_on c s) 0 = Some (before_first c s)"
proof (cases "c \<in> set s")
  case True
  then show ?thesis by (simp add: split_on_present before_first_def)
next
  case False
  then show ?thesis by (simp add: split_on_absent before_first_def takeWhile_absent)
qed

lemma element_split_on_1: "element (split_on c s) 1 = second_segment c s"
proof (cases "c \<in> set s")
  case True
  with element_split_on_0 [of c "tl (dropWhile (\<lambda>x. x \<noteq> c) s)"] show ?thesis
    by (simp add: split_on_present second_segment_def after_first_def)
next
  case False
  then show ?thesis by (simp add: split_on_absent second_segment_def after_first_def)
qed

lemma single_separator_tail:
  "count_list s c = 1 \<Longrightarrow> c \<notin> set (tl (dropWhile (\<lambda>x. x \<noteq> c) s))"
proof (induction s)
  case Nil
  then show ?case by simp
next
  case (Cons x xs)
  show ?case
  proof (cases "x = c")
    case True
    with Cons.prems have "count_list xs c = 0" by simp
    then have "c \<notin> set xs" by (simp add: count_list_0_iff)
    with True show ?thesis by simp
  next
    case False
    with Cons show ?thesis by simp
  qed
qed

lemma before_first_absent: "c \<notin> set s \<Longrightarrow> before_first c s = s"
  by (simp add: before_first_def takeWhile_absent)

lemma single_separator_segment:
  assumes "count_list s c = 1"
  shows "second_segment c s = Some (tl (dropWhile (\<lambda>x. x \<noteq> c) s))"
proof -
  from assms have "c \<in> set s" using count_list_0_iff [of s c] by auto
  with single_separator_tail [OF assms] show ?thesis
    by (simp add: second_segment_def after_first_def before_first_absent)
qed

text \<open>
  Claim C5, as stated: with exactly one \<open>@\<close>, the last \<open>:\<close> of the host segment
  separates host from port. The DSN below has one \<open>@\<close> and two \<open>:\<close> in its host
  segment: the code cuts at the first of them, so the host is \<open>a\<close> and the port
  \<open>NaN\<close>, where the split at the last \<open>:\<close> gives \<open>a:b\<close> and \<open>3306\<close>.
\<close>

theorem parseDSN_last_colon_counterexample:
  "count_list ''u:p@a:b:3306/db'' CHR ''@'' = 1 \<and>
   parseDSN ''u:p@a:b:3306/db''
     = Inr \<lparr> host = ''a'', port = None, user = ''u'', password = Some ''p'',
             database = Some ''db'', waitForConnections = True, connectionLimit = 10,
             maxIdle = 10, queueLimit = 0 \<rparr> \<and>
   parseDSN_as_specified ''u:p@a:b:3306/db''
     = Inr \<lparr> host = ''a:b'', port = Some 3306, user = ''u'', password = Some ''p'',
             database = Some ''db'', waitForConnections = True, connectionLimit = 10,
             maxIdle = 10, queueLimit = 0 \<rparr>"
  by (simp add: parseDSN_def parseDSN_as_specified_def parseInt_def before_first_def
      after_first_def before_last_def after_last_def is_space_def is_digit_def
      digit_value_def digits_value_def)

text \<open>
  Claim C5, amended: for every DSN with exactly one \<open>@\<close>, \<open>parseDSN\<close> returns
  options in which the user is the text before the first \<open>:\<close> of the credentials and
  the password the text from there to the next \<open>:\<close> or the end (absent when the
  credentials have no \<open>:\<close>); the host segment is the text after the \<open>@\<close> up to the
  first \<open>/\<close> and the database name the text from there to the next \<open>/\<close> or the
  end; the first \<open>:\<close> of the host segment separates host from port, the host losing
  its first \<open>tcp(\<close> and its first \<open>)\<close>, the port being \<open>parseInt\<close> of the text up
  to the next \<open>:\<close> or the end; and \<open>connectionLimit\<close> is 10, \<open>maxIdle\<close> 10 and
  \<open>queueLimit\<close> 0.
\<close>

theorem parseDSN_splits_at_first_separators:
  assumes "count_list dsn CHR ''@'' = 1"
  shows "parseDSN dsn =
     (let auth = before_first CHR ''@'' dsn;
          rest = tl (dropWhile (\<lambda>x. x \<noteq> CHR ''@'') dsn);
          hostport = before_first CHR ''/'' rest
      in Inr \<lparr> host = replace_first '')'' '''' (replace_first ''tcp('' ''''
                          (before_first CHR '':'' hostport)),
                port = parseInt (second_segment CHR '':'' hostport),
                user = before_first CHR '':'' auth,
                password = second_segment CHR '':'' auth,
                database = second_segment CHR ''/'' rest,
                waitForConnections = True,
                connectionLimit = 10,
                maxIdle = 10,
                queueLimit = 0 \<rparr>)"
  unfolding parseDSN_def Let_def
  by (simp only: element_split_on_0 element_split_on_1 single_separator_segment [OF assms]
      prod.case option.case)

theorem parseDSN_splits_at_first_separators_witness:
  "parseDSN ''root:secret@tcp(127.0.0.1:3306)/video''
     = Inr \<lparr> host = ''127.0.0.1'', port = Some 3306, user = ''root'', password = Some ''secret'',
             database = Some ''video'', waitForConnections = True, connectionLimit = 10,
             maxIdle = 10, queueLimit = 0 \<rparr>"
  using parseDSN_splits_at_first_separators [of "''root:secret@tcp(127.0.0.1:3306)/video''"]
  by (simp add: before_first_def second_segment_def after_first_def parseInt_def
      is_space_def is_digit_def digit_value_def digits_value_def)

section \<open>Claims about the facade\<close>

lemma unbound_update: "adapter db = None \<Longrightarrow> db\<lparr> adapter := None \<rparr> = db"
  by (cases db) simp

lemma attempt_unbound:
  "adapter db = None \<Longrightarrow>
   attempt w fresh (db, log) =
     (case adapter_initialize w fresh of
        (True, a') \<Rightarrow>
          (Some True, db\<lparr> adapter := Some a', initialized := True \<rparr>,
           log @ [Constructed (backend_of fresh), InitializeCalled (backend_of fresh)])
      | (False, a') \<Rightarrow>
          (None, db, log @ [Constructed (backend_of fresh), InitializeCalled (backend_of fresh)]))"
  by (simp add: attempt_def Let_def unbound_update split: prod.splits bool.splits)

lemma sql_block_candidate: "sql_block w config st = try_candidate w config SQL st"
  by (simp add: sql_block_def try_candidate_def present_def construct_def sqlDsn_given_def
      split: option.splits)

lemma pg_block_candidate:
  "adapter (fst st) = None \<Longrightarrow> pg_block w config st = try_candidate w config Postgres st"
  by (simp add: pg_block_def try_candidate_def present_def construct_def pgConfig_given_def
      split: option.splits)

lemma kv_block_candidate:
  "adapter (fst st) = None \<Longrightarrow> kv_block w config st = try_candidate w config KeyValue st"
  by (simp add: kv_block_def try_candidate_def present_def construct_def kv_given_def
      split: option.splits)

lemma candidate_falls_through:
  "adapter db = None \<Longrightarrow> try_candidate w config b (db, log) = (None, st') \<Longrightarrow> fst st' = db"
  by (auto simp: try_candidate_def attempt_unbound
      split: if_splits option.splits prod.splits bool.splits)

lemma blocks_as_loop:
  assumes "adapter (fst st) = None"
  shows "(case sql_block w config st of
            (Some b, st1) \<Rightarrow> (b, st1)
          | (None, st1) \<Rightarrow>
              (case pg_block w config st1 of
                 (Some b, st2) \<Rightarrow> (b, st2)
               | (None, st2) \<Rightarrow>
                   (case kv_block w config st2 of
                      (Some b, st3) \<Rightarrow> (b, st3)
                    | (None, db3, log3) \<Rightarrow>
                        if adapter db3 = None then (False, db3, log3)
                        else (True, db3, log3))))
         = try_candidates w config [SQL, Postgres, KeyValue] st"
proof -
  obtain r1 st1 where c1: "try_candidate w config SQL st = (r1, st1)"
    by (cases "try_candidate w config SQL st")
  show ?thesis
  proof (cases r1)
    case (Some b)
    with c1 show ?thesis by (simp add: sql_block_candidate)
  next
    case None
    with c1 assms have a1: "adapter (fst st1) = None"
      using candidate_falls_through [of "fst st" w config SQL "snd st" st1] by simp
    obtain r2 st2 where c2: "try_candidate w config Postgres st1 = (r2, st2)"
      by (cases "try_candidate w config Postgres st1")
    show ?thesis
    proof (cases r2)
      case (Some b)
      with c1 None c2 a1 show ?thesis
        by (simp add: sql_block_candidate pg_block_candidate)
    next
      case n2: None
      with c2 a1 have a2: "adapter (fst st2) = None"
        using candidate_falls_through [of "fst st1" w config Postgres "snd st1" st2] by simp
      obtain r3 st3 where c3: "try_candidate w config KeyValue st2 = (r3, st3)"
        by (cases "try_candidate w config KeyValue st2")
      from c1 None c2 n2 c3 a1 a2 show ?thesis
        by (cases r3; cases st3)
           (simp_all add: sql_block_candidate pg_block_candidate kv_block_candidate)
    qed
  qed
qed

lemma Database_initialize_as_loop:
  assumes "adapter db = None"
  shows "Database_initialize w config db
           = try_candidates w config [SQL, Postgres, KeyValue] (db, [])"
  using assms blocks_as_loop [of "(db, [])" w config]
  by (simp add: Database_initialize_def)

lemma Database_initialize_after_close:
  assumes "adapter db = Some a" and "\<not> initialized db"
  shows "Database_initialize w config db
           = try_candidates w config [SQL, Postgres, KeyValue]
               (db\<lparr> adapter := None \<rparr>, [CloseCalled (backend_of a)])"
  using assms blocks_as_loop [of "(db\<lparr> adapter := None \<rparr>, [CloseCalled (backend_of a)])" w config]
  by (simp add: Database_initialize_def)

lemma try_candidates_select:
  "adapter db = None \<Longrightarrow>
   try_candidates w config bs (db, log) =
     (case select_in_order w config bs of
        (Some bound, log') \<Rightarrow>
          (True, db\<lparr> adapter := Some bound, initialized := True \<rparr>, log @ log')
      | (None, log') \<Rightarrow> (False, db, log @ log'))"
proof (induction bs arbitrary: log)
  case Nil
  then show ?case by simp
next
  case (Cons b bs)
  show ?case
  proof (cases "present config b")
    case False
    with Cons show ?thesis by (simp add: try_candidate_def)
  next
    case True
    show ?thesis
    proof (cases "construct config b")
      case None
      with True Cons show ?thesis by (simp add: try_candidate_def)
    next
      case (Some fresh)
      have bk: "backend_of fresh = b"
        using Some by (cases b) (auto simp: construct_def)
      obtain ok a' where ai: "adapter_initialize w fresh = (ok, a')"
        by (cases "adapter_initialize w fresh")
      show ?thesis
      proof (cases ok)
        case True
        with \<open>present config b\<close> Some ai bk Cons.prems show ?thesis
          by (simp add: try_candidate_def attempt_unbound)
      next
        case False
        with \<open>present config b\<close> Some ai bk Cons.prems
          Cons.IH [OF Cons.prems, of "log @ [Constructed b, InitializeCalled b]"]
        show ?thesis
          by (simp add: try_candidate_def attempt_unbound split: prod.splits option.splits)
      qed
    qed
  qed
qed

lemma try_candidates_success:
  assumes "adapter db = None" and "try_candidates w config bs (db, log) = (True, db', log')"
  shows "initialized db' \<and> adapter db' \<noteq> None"
  using assms try_candidates_select [of db w config bs log]
  by (auto split: prod.splits option.splits)

lemma Database_initialize_success:
  assumes "Database_initialize w config db = (True, db', log)"
  shows "initialized db' \<and> adapter db' \<noteq> None"
proof (cases "adapter db")
  case None
  with assms Database_initialize_as_loop [of db w config]
  have "try_candidates w config [SQL, Postgres, KeyValue] (db, []) = (True, db', log)" by simp
  from try_candidates_success [OF None this] show ?thesis .
next
  case (Some a)
  show ?thesis
  proof (cases "initialized db")
    case True
    with Some assms show ?thesis by (auto simp: Database_initialize_def)
  next
    case False
    from Database_initialize_after_close [OF Some False, of w config] assms
    have "try_candidates w config [SQL, Postgres, KeyValue]
            (db\<lparr> adapter := None \<rparr>, [CloseCalled (backend_of a)]) = (True, db', log)"
      by simp
    from try_candidates_success [OF _ this] show ?thesis by simp
  qed
qed

lemma initialize_each_bound:
  "initialized db \<Longrightarrow> adapter db \<noteq> None \<Longrightarrow>
   initialize_each calls db = (map (\<lambda>call. (True, [])) calls, db)"
  by (induction calls) (auto simp: Database_initialize_def)

lemma present_construct: "present config b \<Longrightarrow> construct config b \<noteq> None"
  by (cases b; cases "sqlDsn config")
     (auto simp: present_def construct_def sqlDsn_given_def pgConfig_given_def kv_given_def
       split: option.splits)

lemma select_in_order_log:
  "\<exists>tried. prefix tried (filter (present config) bs) \<and>
     snd (select_in_order w config bs)
       = concat (map (\<lambda>b. [Constructed b, InitializeCalled b]) tried)"
proof (induction bs)
  case Nil
  show ?case by simp
next
  case (Cons b bs)
  then obtain tried where t: "prefix tried (filter (present config) bs)"
    "snd (select_in_order w config bs)
       = concat (map (\<lambda>b. [Constructed b, InitializeCalled b]) tried)"
    by blast
  show ?case
  proof (cases "present config b")
    case False
    with t show ?thesis by auto
  next
    case True
    then obtain fresh where f: "construct config b = Some fresh"
      using present_construct [of config b] by auto
    obtain ok a' where ai: "adapter_initialize w fresh = (ok, a')"
      by (cases "adapter_initialize w fresh")
    show ?thesis
    proof (cases ok)
      case True
      with \<open>present config b\<close> f ai
      have "prefix [b] (filter (present config) (b # bs)) \<and>
            snd (select_in_order w config (b # bs))
              = concat (map (\<lambda>b. [Constructed b, InitializeCalled b]) [b])"
        by simp
      then show ?thesis by blast
    next
      case False
      with \<open>present config b\<close> f ai t
      have "prefix (b # tried) (filter (present config) (b # bs)) \<and>
            snd (select_in_order w config (b # bs))
              = concat (map (\<lambda>b. [Constructed b, InitializeCalled b]) (b # tried))"
        by (auto split: prod.splits)
      then show ?thesis by blast
    qed
  qed
qed

text \<open>
  Claim C2: on a facade with no adapter, \<open>initialize(config)\<close> is the selection rule
  over SQL DSN, Postgres connection, key-value namespace in this order: the result is
  true with the first candidate whose \<open>initialize()\<close> succeeds bound, or false with
  no adapter bound; and the adapters constructed and initialized are, in order, an
  initial stretch of the candidates present in the configuration.
\<close>

theorem Database_initialize_follows_priority:
  assumes "adapter db = None"
  shows "Database_initialize w config db =
           (case select_in_order w config [SQL, Postgres, KeyValue] of
              (Some bound, log) \<Rightarrow>
                (True, db\<lparr> adapter := Some bound, initialized := True \<rparr>, log)
            | (None, log) \<Rightarrow> (False, db, log)) \<and>
         (\<exists>tried. prefix tried (filter (present config) [SQL, Postgres, KeyValue]) \<and>
            snd (snd (Database_initialize w config db))
              = concat (map (\<lambda>b. [Constructed b, InitializeCalled b]) tried))"
proof -
  have eq: "Database_initialize w config db =
           (case select_in_order w config [SQL, Postgres, KeyValue] of
              (Some bound, log) \<Rightarrow>
                (True, db\<lparr> adapter := Some bound, initialized := True \<rparr>, log)
            | (None, log) \<Rightarrow> (False, db, log))"
    using Database_initialize_as_loop [OF assms, of w config]
      try_candidates_select [OF assms, of w config "[SQL, Postgres, KeyValue]" "[]"]
    by (simp del: select_in_order.simps try_candidates.simps
        split: prod.splits option.splits)
  have "snd (snd (Database_initialize w config db))
          = snd (select_in_order w config [SQL, Postgres, KeyValue])"
    by (simp add: eq del: select_in_order.simps split: prod.splits option.splits)
  with select_in_order_log [of config "[SQL, Postgres, KeyValue]" w] eq
  show ?thesis by (simp del: select_in_order.simps)
qed

lemma example_selection:
  "select_in_order example_world example_config [SQL, Postgres, KeyValue]
     = (Some (PgAdapter \<lparr> pg_options = ConnectionString ''postgres://u:p@h/d'',
                           pg_tableName = ''configs'', pg_initialized = True \<rparr>),
        [Constructed SQL, InitializeCalled SQL, Constructed Postgres, InitializeCalled Postgres])"
  by (simp add: example_world_def example_config_def present_def construct_def
      sqlDsn_given_def pgConfig_given_def new_SQLAdapter_def new_PgAdapter_def
      SQLAdapter_initialize_def PgAdapter_initialize_def parseDSN_def)

theorem Database_initialize_follows_priority_witness:
  "Database_initialize example_world example_config \<lparr> adapter = None, initialized = False \<rparr>
     = (True, example_bound,
        [Constructed SQL, InitializeCalled SQL, Constructed Postgres, InitializeCalled Postgres])"
  using Database_initialize_follows_priority
    [of "\<lparr> adapter = None, initialized = False \<rparr>" example_world example_config]
  by (simp add: example_selection example_bound_def del: select_in_order.simps)

text \<open>
  Claim C3: once \<open>initialize\<close> has returned true, and until \<open>close\<close>, every
  further \<open>initialize\<close>, whatever its configuration and whatever the backends do,
  returns true, constructs and initializes nothing, and leaves the facade with the
  adapter it had.
\<close>

theorem Database_initialize_idempotent:
  assumes "Database_initialize w config db = (True, db', log)"
  shows "adapter db' \<noteq> None \<and>
         initialize_each calls db' = (map (\<lambda>call. (True, [])) calls, db')"
  using Database_initialize_success [OF assms] initialize_each_bound [of db' calls]
  by simp

theorem Database_initialize_idempotent_witness:
  "initialize_each
     [(example_world, example_config),
      (example_world, \<lparr> sqlDsn = None, pgConfig = None, kvNamespace = Some (Store []) \<rparr>)]
     example_bound
   = ([(True, []), (True, [])], example_bound)"
proof -
  have "Database_initialize example_world example_config \<lparr> adapter = None, initialized = False \<rparr>
     = (True, example_bound,
        [Constructed SQL, InitializeCalled SQL, Constructed Postgres, InitializeCalled Postgres])"
    using Database_initialize_as_loop
      [of "\<lparr> adapter = None, initialized = False \<rparr>" example_world example_config]
      try_candidates_select
      [of "\<lparr> adapter = None, initialized = False \<rparr>" example_world example_config
          "[SQL, Postgres, KeyValue]" "[]"]
    by (simp add: example_selection example_bound_def
        del: select_in_order.simps try_candidates.simps)
  from Database_initialize_idempotent [OF this,
      of "[(example_world, example_config),
           (example_world, \<lparr> sqlDsn = None, pgConfig = None, kvNamespace = Some (Store []) \<rparr>)]"]
  show ?thesis by simp
qed

section \<open>Claims about the session tokens\<close>

lemma fingerprint_userAgent:
  assumes "inj encode"
    and "generateDeviceFingerprint encode req2 = generateDeviceFingerprint encode req1"
  shows "header_or_unknown req2 ''user-agent'' = header_or_unknown req1 ''user-agent''"
proof -
  from assms have "fingerprint_of req2 = fingerprint_of req1"
    by (simp add: generateDeviceFingerprint_def inj_eq)
  then have "userAgent (fingerprint_of req2) = userAgent (fingerprint_of req1)" by simp
  then show ?thesis by (simp add: fingerprint_of_def)
qed

lemma verifyToken_iff:
  "verifyToken encode secret now tok req = Some p \<longleftrightarrow>
     signature_verifies tok secret \<and> unexpired tok (now div 1000) \<and> payload_of tok = Some p \<and>
     deviceFingerprint p = Some (generateDeviceFingerprint encode req)"
  by (cases tok) (auto simp: verifyToken_def jwt_verify_def split: if_splits)

text \<open>
  Claim C7, as stated: a token issued for a request is rejected when the presenting
  request's user-agent differs. The issuing request below has no \<open>user-agent\<close>
  header and the presenting request has the header \<open>unknown\<close>; all else is equal.
  Both fingerprints carry \<open>unknown\<close>, and the token is accepted one second after it
  was issued.
\<close>

theorem verifyToken_user_agent_counterexample:
  "headers \<lparr> headers = Map.empty, req_ip = Some ''10.0.0.1'', remoteAddress = None \<rparr> ''user-agent''
     \<noteq> headers \<lparr> headers = [''user-agent'' \<mapsto> ''unknown''], req_ip = Some ''10.0.0.1'',
                   remoteAddress = None \<rparr> ''user-agent'' \<and>
   verifyToken (\<lambda>f. f) ''key'' 1700000001000
     (generateToken (\<lambda>f. f) ''key'' 1700000000000 False
        \<lparr> headers = Map.empty, req_ip = Some ''10.0.0.1'', remoteAddress = None \<rparr>)
     \<lparr> headers = [''user-agent'' \<mapsto> ''unknown''], req_ip = Some ''10.0.0.1'', remoteAddress = None \<rparr>
   \<noteq> None"
  by (simp add: verifyToken_def generateToken_def jwt_sign_def jwt_verify_def
      generateDeviceFingerprint_def fingerprint_of_def header_or_unknown_def client_ip_def)

text \<open>
  Claim C7, amended: \<open>verifyToken\<close> returns the decoded payload if and only if the
  token's signature verifies under the server secret, the token is unexpired, and the
  fingerprint embedded in it equals the fingerprint recomputed from the presenting
  request; a token issued for a request verifies, while unexpired, when presented with
  a request replaying the same headers and address; and, the encoding of fingerprints
  being injective, it is rejected when the user-agent the fingerprint records (the
  header, or \<open>unknown\<close> when the header is absent or empty) differs.
\<close>

theorem verifyToken_accepts_iff_bound_to_fingerprint:
  "(verifyToken encode secret now tok req = Some p \<longleftrightarrow>
      signature_verifies tok secret \<and> unexpired tok (now div 1000) \<and> payload_of tok = Some p \<and>
      deviceFingerprint p = Some (generateDeviceFingerprint encode req)) \<and>
   (unexpired (generateToken encode secret issued admin req1) (now div 1000) \<and>
    headers req2 = headers req1 \<and> client_ip req2 = client_ip req1
    \<longrightarrow> verifyToken encode secret now (generateToken encode secret issued admin req1) req2
          = payload_of (generateToken encode secret issued admin req1) \<and>
        payload_of (generateToken encode secret issued admin req1) \<noteq> None) \<and>
   (inj encode \<and> header_or_unknown req2 ''user-agent'' \<noteq> header_or_unknown req1 ''user-agent''
    \<longrightarrow> verifyToken encode secret now (generateToken encode secret issued admin req1) req2 = None)"
proof (intro conjI impI)
  show "verifyToken encode secret now tok req = Some p \<longleftrightarrow>
      signature_verifies tok secret \<and> unexpired tok (now div 1000) \<and> payload_of tok = Some p \<and>
      deviceFingerprint p = Some (generateDeviceFingerprint encode req)"
    by (rule verifyToken_iff)
next
  assume a: "unexpired (generateToken encode secret issued admin req1) (now div 1000) \<and>
    headers req2 = headers req1 \<and> client_ip req2 = client_ip req1"
  then have "generateDeviceFingerprint encode req2 = generateDeviceFingerprint encode req1"
    by (simp add: generateDeviceFingerprint_def fingerprint_of_def header_or_unknown_def)
  with a show "verifyToken encode secret now (generateToken encode secret issued admin req1) req2
          = payload_of (generateToken encode secret issued admin req1)"
    by (simp add: verifyToken_def generateToken_def jwt_sign_def jwt_verify_def)
next
  show "payload_of (generateToken encode secret issued admin req1) \<noteq> None"
    by (simp add: generateToken_def jwt_sign_def)
next
  assume b: "inj encode \<and>
    header_or_unknown req2 ''user-agent'' \<noteq> header_or_unknown req1 ''user-agent''"
  then have "generateDeviceFingerprint encode req2 \<noteq> generateDeviceFingerprint encode req1"
    using fingerprint_userAgent [of encode req2 req1] by blast
  then show "verifyToken encode secret now (generateToken encode secret issued admin req1) req2 = None"
    by (simp add: verifyToken_def generateToken_def jwt_sign_def jwt_verify_def)
qed

theorem verifyToken_accepts_iff_bound_to_fingerprint_witness:
  "verifyToken (\<lambda>f. f) ''key'' 1700000001000
     (generateToken (\<lambda>f. f) ''key'' 1700000000000 False browser_request) browser_request
     = payload_of (generateToken (\<lambda>f. f) ''key'' 1700000000000 False browser_request) \<and>
   payload_of (generateToken (\<lambda>f. f) ''key'' 1700000000000 False browser_request) \<noteq> None \<and>
   verifyToken (\<lambda>f. f) ''key'' 1700000001000
     (generateToken (\<lambda>f. f) ''key'' 1700000000000 False browser_request) curl_request
     = None"
proof -
  have u: "unexpired (generateToken (\<lambda>f. f) ''key'' 1700000000000 False browser_request)
             (1700000001000 div 1000)"
    by (simp add: generateToken_def jwt_sign_def)
  have i: "inj (\<lambda>f :: fingerprint. f)" by simp
  have d: "header_or_unknown curl_request ''user-agent''
             \<noteq> header_or_unknown browser_request ''user-agent''"
    by (simp add: header_or_unknown_def curl_request_def browser_request_def)
  from verifyToken_accepts_iff_bound_to_fingerprint
    [where encode = "\<lambda>f. f" and secret = "''key''" and now = 1700000001000
       and issued = 1700000000000 and admin = False and ?req1.0 = browser_request
       and ?req2.0 = browser_request] u
  have replay: "verifyToken (\<lambda>f. f) ''key'' 1700000001000
     (generateToken (\<lambda>f. f) ''key'' 1700000000000 False browser_request) browser_request
     = payload_of (generateToken (\<lambda>f. f) ''key'' 1700000000000 False browser_request) \<and>
   payload_of (generateToken (\<lambda>f. f) ''key'' 1700000000000 False browser_request) \<noteq> None"
    by blast
  from verifyToken_accepts_iff_bound_to_fingerprint
    [where encode = "\<lambda>f. f" and secret = "''key''" and now = 1700000001000
       and issued = 1700000000000 and admin = False and ?req1.0 = browser_request
       and ?req2.0 = curl_request] i d
  have "verifyToken (\<lambda>f. f) ''key'' 1700000001000
     (generateToken (\<lambda>f. f) ''key'' 1700000000000 False browser_request) curl_request
     = None"
    by blast
  with replay show ?thesis by blast
qed

section \<open>Claims about the stored record\<close>






















section \<open>Claims about transactions\<close>

text \<open>What a transaction of a working adapter does with its callback's result.\<close>

lemma SQLAdapter_transaction_does:
  assumes "sql_pool a" and "accepting srv" and "answering srv"
  shows "SQLAdapter_transaction a outer srv =
           (case outer (SQLTransactionAdapter a) srv of
              (Inr r, srv') \<Rightarrow> (Inr r, a, srv')
            | (Inl e, srv') \<Rightarrow> (Inl e, a, srv))"
  using assms by (simp add: SQLAdapter_transaction_def ensure_pool_def)

lemma PgAdapter_transaction_does:
  assumes "pg_initialized p" and "pg_online pg"
  shows "PgAdapter_transaction p outer pg =
           (case outer (PgTempAdapter p) pg of
              (Inr r, pg') \<Rightarrow> (Inr r, p, pg')
            | (Inl e, pg') \<Rightarrow> (Inl e, p, pg))"
  using assms by (simp add: PgAdapter_transaction_def ensure_initialized_def)

text \<open>
  Claim C6, as stated: on the SQL and the Postgres adapter, \<open>transaction\<close> called on
  the handle of a running transaction fails with the nested-transaction error. The
  Postgres adapter's temporary adapter calls the nested callback instead: below, the
  nested callback writes a row and returns true, and the outer transaction commits
  that row and returns true.
\<close>

theorem PgAdapter_nested_transaction_counterexample:
  "PgAdapter_transaction
     \<lparr> pg_options = ConnectionString ''postgres://u:p@h/d'', pg_tableName = ''configs'',
       pg_initialized = True \<rparr>
     (\<lambda>h. handle_transaction h
        (\<lambda>h' pg. (Inr True, pg\<lparr> pg_rows := upsert (pg_rows pg) ''k'' (JNum 1) \<rparr>)))
     \<lparr> pg_online = True, pg_rows = [] \<rparr>
   = (Inr True,
      \<lparr> pg_options = ConnectionString ''postgres://u:p@h/d'', pg_tableName = ''configs'',
        pg_initialized = True \<rparr>,
      \<lparr> pg_online = True, pg_rows = [(''k'', JNum 1)] \<rparr>)"
  by (simp add: PgAdapter_transaction_def ensure_initialized_def upsert_def insert_row_def)

text \<open>
  Claim C6, amended: for every callback. On the SQL adapter, \<open>transaction\<close> called on
  the handle of a running transaction fails at once with the nested-transaction error
  and does not run the callback; an outer transaction that lets the error through,
  whatever it did to the store before nesting, raises that error with the store as it
  was when the transaction began, as it does for any error of its callback, and keeps
  what the callback did only when the callback returns. On the Postgres adapter the
  nested call does not fail: it runs the callback against the same temporary adapter
  inside the running transaction, on what the outer callback has done so far, and the
  outer transaction commits or rolls back by the nested callback's result. The
  key-value adapter's \<open>transaction\<close> runs the callback against the adapter itself
  and returns what it returns, a nested call included, and the store keeps what was
  done even when the callback raises.
\<close>

theorem nested_transaction_behaviour:
  "handle_transaction (SQLTransactionAdapter a) inner s = (Inl NestedTransaction, s) \<and>
   (sql_pool a \<and> accepting srv \<and> answering srv
    \<longrightarrow> SQLAdapter_transaction a (\<lambda>h s. handle_transaction h inner_sql (before_sql s)) srv
          = (Inl NestedTransaction, a, srv)) \<and>
   (sql_pool a \<and> accepting srv \<and> answering srv
    \<longrightarrow> SQLAdapter_transaction a outer srv
          = (case outer (SQLTransactionAdapter a) srv of
               (Inr r, srv') \<Rightarrow> (Inr r, a, srv')
             | (Inl e, srv') \<Rightarrow> (Inl e, a, srv))) \<and>
   (pg_initialized p \<and> pg_online pg
    \<longrightarrow> PgAdapter_transaction p (\<lambda>h s. handle_transaction h inner_pg (before_pg s)) pg
          = (case inner_pg (PgTempAdapter p) (before_pg pg) of
               (Inr r, pg') \<Rightarrow> (Inr r, p, pg')
             | (Inl e, pg') \<Rightarrow> (Inl e, p, pg))) \<and>
   KVAdapter_transaction k callback store = callback (KVSelf k) store \<and>
   KVAdapter_transaction k (\<lambda>h s. handle_transaction h inner_kv (before_kv s)) store
     = inner_kv (KVSelf k) (before_kv store)"
proof (intro conjI impI)
  show "handle_transaction (SQLTransactionAdapter a) inner s = (Inl NestedTransaction, s)"
    by simp
next
  assume up: "sql_pool a \<and> accepting srv \<and> answering srv"
  then show "SQLAdapter_transaction a (\<lambda>h s. handle_transaction h inner_sql (before_sql s)) srv
          = (Inl NestedTransaction, a, srv)"
    by (simp add: SQLAdapter_transaction_does)
next
  assume "sql_pool a \<and> accepting srv \<and> answering srv"
  then show "SQLAdapter_transaction a outer srv
          = (case outer (SQLTransactionAdapter a) srv of
               (Inr r, srv') \<Rightarrow> (Inr r, a, srv')
             | (Inl e, srv') \<Rightarrow> (Inl e, a, srv))"
    by (simp add: SQLAdapter_transaction_does)
next
  assume "pg_initialized p \<and> pg_online pg"
  then show "PgAdapter_transaction p (\<lambda>h s. handle_transaction h inner_pg (before_pg s)) pg
          = (case inner_pg (PgTempAdapter p) (before_pg pg) of
               (Inr r, pg') \<Rightarrow> (Inr r, p, pg')
             | (Inl e, pg') \<Rightarrow> (Inl e, p, pg))"
    by (simp add: PgAdapter_transaction_does)
next
  show "KVAdapter_transaction k callback store = callback (KVSelf k) store"
    by (simp add: KVAdapter_transaction_def)
next
  show "KVAdapter_transaction k (\<lambda>h s. handle_transaction h inner_kv (before_kv s)) store
     = inner_kv (KVSelf k) (before_kv store)"
    by (simp add: KVAdapter_transaction_def)
qed

text \<open>
  The outer callback below inserts a row and then opens a nested transaction: on the
  SQL adapter the error comes out and the row is gone; on the key-value adapter the
  nested callback runs, raises, and both writes stay.
\<close>

theorem nested_transaction_behaviour_witness:
  "SQLAdapter_transaction
     \<lparr> sql_dsn = ''u:p@h:3306/d'', sql_pool = True, sql_initialized = True \<rparr>
     (\<lambda>h srv. handle_transaction h
        (\<lambda>h' srv'. (Inr True, srv'\<lparr> configs := insert_row (configs srv') 3 JNull \<rparr>))
        (srv\<lparr> configs := insert_row (configs srv) 2 (JNum 7) \<rparr>))
     \<lparr> accepting = True, answering = True, configs = [] \<rparr>
   = (Inl NestedTransaction,
      \<lparr> sql_dsn = ''u:p@h:3306/d'', sql_pool = True, sql_initialized = True \<rparr>,
      \<lparr> accepting = True, answering = True, configs = [] \<rparr>) \<and>
   SQLAdapter_transaction
     \<lparr> sql_dsn = ''u:p@h:3306/d'', sql_pool = True, sql_initialized = True \<rparr>
     (\<lambda>h srv. (Inr True, srv\<lparr> configs := insert_row (configs srv) 2 (JNum 7) \<rparr>))
     \<lparr> accepting = True, answering = True, configs = [] \<rparr>
   = (Inr True,
      \<lparr> sql_dsn = ''u:p@h:3306/d'', sql_pool = True, sql_initialized = True \<rparr>,
      \<lparr> accepting = True, answering = True, configs = [(2, JNum 7)] \<rparr>) \<and>
   PgAdapter_transaction
     \<lparr> pg_options = ConnectionString ''postgres://u:p@h/d'', pg_tableName = ''configs'',
       pg_initialized = True \<rparr>
     (\<lambda>h pg. handle_transaction h
        (\<lambda>h' pg'. (Inl DriverError :: error + bool,
                     pg'\<lparr> pg_rows := insert_row (pg_rows pg') ''n'' JNull \<rparr>))
        (pg\<lparr> pg_rows := insert_row (pg_rows pg) ''k'' (JNum 1) \<rparr>))
     \<lparr> pg_online = True, pg_rows = [] \<rparr>
   = (Inl DriverError,
      \<lparr> pg_options = ConnectionString ''postgres://u:p@h/d'', pg_tableName = ''configs'',
        pg_initialized = True \<rparr>,
      \<lparr> pg_online = True, pg_rows = [] \<rparr>) \<and>
   KVAdapter_transaction \<lparr> kv_handle = Store [], kv_initialized = True \<rparr>
     (\<lambda>h entries. handle_transaction h
        (\<lambda>h' entries'. (Inl DriverError :: error + bool, (''n'', ''w'') # entries'))
        ((''k'', ''v'') # entries)) []
   = (Inl DriverError, [(''n'', ''w''), (''k'', ''v'')])"
  using nested_transaction_behaviour
    [where a = "\<lparr> sql_dsn = ''u:p@h:3306/d'', sql_pool = True, sql_initialized = True \<rparr>"
       and srv = "\<lparr> accepting = True, answering = True, configs = [] \<rparr>"
       and inner_sql = "\<lambda>h' srv'. (Inr True, srv'\<lparr> configs := insert_row (configs srv') 3 JNull \<rparr>)"
       and before_sql = "\<lambda>srv. srv\<lparr> configs := insert_row (configs srv) 2 (JNum 7) \<rparr>"
       and outer = "\<lambda>h srv. (Inr True, srv\<lparr> configs := insert_row (configs srv) 2 (JNum 7) \<rparr>)"
       and inner = "\<lambda>h' srv'. (Inr True, srv'\<lparr> configs := insert_row (configs srv') 3 JNull \<rparr>)"
       and s = "\<lparr> accepting = True, answering = True, configs = [] \<rparr>"
       and p = "\<lparr> pg_options = ConnectionString ''postgres://u:p@h/d'', pg_tableName = ''configs'',
                  pg_initialized = True \<rparr>"
       and pg = "\<lparr> pg_online = True, pg_rows = [] \<rparr>"
       and inner_pg = "\<lambda>h' pg'. (Inl DriverError :: error + bool,
                                    pg'\<lparr> pg_rows := insert_row (pg_rows pg') ''n'' JNull \<rparr>)"
       and before_pg = "\<lambda>pg. pg\<lparr> pg_rows := insert_row (pg_rows pg) ''k'' (JNum 1) \<rparr>"
       and k = "\<lparr> kv_handle = Store [], kv_initialized = True \<rparr>"
       and callback = "\<lambda>h entries. (Inl DriverError :: error + bool, (''k'', ''v'') # entries)"
       and store = "[] :: (string \<times> string) list"
       and inner_kv = "\<lambda>h' entries'. (Inl DriverError :: error + bool, (''n'', ''w'') # entries')"
       and before_kv = "\<lambda>entries. (''k'', ''v'') # entries"]
  by (simp add: insert_row_def)

end
